theory Spec2Isabelle
  imports Complex_Main "HOL-Library.Multiset"
begin

section \<open>Conventions of the embedding\<close>

text \<open>
  The development embeds the scoring core of the resume screener:
  \<^verbatim>\<open>matcher/scorer.py\<close>, \<^verbatim>\<open>parsers/jd_parser.py\<close> and
  \<^verbatim>\<open>extractors/keyword_extractor.py\<close>.

  \<^item> Python \<^verbatim>\<open>str\<close> is \<^typ>\<open>string\<close>; the characters are ASCII, so
    \<^verbatim>\<open>str.lower\<close> maps \<^verbatim>\<open>A..Z\<close> to \<^verbatim>\<open>a..z\<close> and leaves every other character.
  \<^item> Python \<^verbatim>\<open>int\<close> is \<^typ>\<open>int\<close>.
  \<^item> Python \<^verbatim>\<open>float\<close> is the type \<open>float\<close> of IEEE 754 binary64 numbers defined
    below, and a float known to be finite is the real number it denotes. The three
    component scores are given twice: on exact numbers, where the claims about their
    formulas are stated, and in floating point, as \<^verbatim>\<open>score_resume\<close> computes them.
    \<^verbatim>\<open>/\<close> between two ints is true division.
  \<^item> A Python \<^verbatim>\<open>set\<close> is a HOL set; \<^verbatim>\<open>list(some_set)\<close>, whose order Python leaves
    open, stays a set.
  \<^item> An exception is a value \<open>Inl e\<close> of the result type \<open>py_error + 'a\<close>.
\<close>

datatype py_error =
    KeyError string | ZeroDivisionError | OverflowError | TypeError | AttributeError

subsection \<open>Strings\<close>

definition is_upper :: "char \<Rightarrow> bool" where
  "is_upper c \<longleftrightarrow> 65 \<le> (of_char c :: nat) \<and> (of_char c :: nat) \<le> 90"

definition lower_char :: "char \<Rightarrow> char" where
  "lower_char c = (if is_upper c then char_of ((of_char c :: nat) + 32) else c)"

definition lower :: "string \<Rightarrow> string" where
  "lower s = map lower_char s"

definition is_lower :: "char \<Rightarrow> bool" where
  "is_lower c \<longleftrightarrow> 97 \<le> (of_char c :: nat) \<and> (of_char c :: nat) \<le> 122"

definition upper_char :: "char \<Rightarrow> char" where
  "upper_char c = (if is_lower c then char_of ((of_char c :: nat) - 32) else c)"

definition is_digit :: "char \<Rightarrow> bool" where
  "is_digit c \<longleftrightarrow> 48 \<le> (of_char c :: nat) \<and> (of_char c :: nat) \<le> 57"

text \<open>\<^verbatim>\<open>str.isspace\<close> on ASCII: tab, line feed, vertical tab, form feed, carriage return,
  the four separators \<open>0x1c\<close> to \<open>0x1f\<close>, and the space.\<close>

definition is_space :: "char \<Rightarrow> bool" where
  "is_space c \<longleftrightarrow> (9 \<le> (of_char c :: nat) \<and> (of_char c :: nat) \<le> 13)
      \<or> (28 \<le> (of_char c :: nat) \<and> (of_char c :: nat) \<le> 32)"

text \<open>The word characters of \<^verbatim>\<open>\w\<close> and \<^verbatim>\<open>\b\<close>: letters, digits and the underscore.\<close>

definition is_word :: "char \<Rightarrow> bool" where
  "is_word c \<longleftrightarrow> is_upper c \<or> is_lower c \<or> is_digit c \<or> (of_char c :: nat) = 95"

definition strip :: "string \<Rightarrow> string" where
  "strip s = rev (dropWhile is_space (rev (dropWhile is_space s)))"

text \<open>\<^verbatim>\<open>int(s)\<close>, which the code applies to captured runs of digits only; \<open>None\<close>
  stands for the ValueError of a string that is not a run of digits.\<close>

definition digit_val :: "char \<Rightarrow> int" where
  "digit_val c = int (of_char c) - 48"

definition int_of_str :: "string \<Rightarrow> int option" where
  "int_of_str s =
     (if s \<noteq> [] \<and> list_all is_digit s
      then Some (foldl (\<lambda>acc c. 10 * acc + digit_val c) 0 s) else None)"

subsection \<open>The regular expressions of the module \<^verbatim>\<open>re\<close>\<close>

text \<open>
  A pattern of the source is written as a term of \<open>regex\<close>, constructor for
  operator. The matcher is the backtracking matcher of \<^verbatim>\<open>re\<close>: it returns every way
  a pattern matches at a position, the preferred way first (the left alternative
  before the right one, more repetitions first for a greedy star, fewer first for a
  lazy one), so the head of the list is the match \<^verbatim>\<open>re\<close> reports.
\<close>

datatype cclass =
    Lit char                \<comment> \<open>the character itself\<close>
  | Digit                   \<comment> \<open>\<^verbatim>\<open>\d\<close>\<close>
  | Space                   \<comment> \<open>\<^verbatim>\<open>\s\<close>\<close>
  | AnyChar                 \<comment> \<open>\<^verbatim>\<open>.\<close>\<close>
  | Range char char         \<comment> \<open>\<^verbatim>\<open>a-z\<close> inside brackets\<close>
  | Union "cclass list"     \<comment> \<open>\<^verbatim>\<open>[...]\<close>\<close>

datatype regex =
    Eps
  | Sym cclass
  | Cat regex regex
  | Or regex regex          \<comment> \<open>\<^verbatim>\<open>r|s\<close>\<close>
  | Star regex              \<comment> \<open>\<^verbatim>\<open>r*\<close>\<close>
  | StarLazy regex          \<comment> \<open>\<^verbatim>\<open>r*?\<close>\<close>
  | Group nat regex         \<comment> \<open>the capturing group of that number\<close>
  | WordB                   \<comment> \<open>\<^verbatim>\<open>\b\<close>\<close>
  | Ahead regex             \<comment> \<open>\<^verbatim>\<open>(?=r)\<close>\<close>
  | Eot                     \<comment> \<open>\<^verbatim>\<open>$\<close>\<close>

record flags =
  ignorecase :: bool
  multiline :: bool
  dotall :: bool

definition no_flags :: flags where
  "no_flags = \<lparr>ignorecase = False, multiline = False, dotall = False\<rparr>"

definition IGNORECASE :: flags where
  "IGNORECASE = \<lparr>ignorecase = True, multiline = False, dotall = False\<rparr>"

definition MULTILINE :: flags where
  "MULTILINE = \<lparr>ignorecase = False, multiline = True, dotall = False\<rparr>"

definition IGNORECASE_DOTALL :: flags where
  "IGNORECASE_DOTALL = \<lparr>ignorecase = True, multiline = False, dotall = True\<rparr>"

fun in_class :: "bool \<Rightarrow> cclass \<Rightarrow> char \<Rightarrow> bool" where
  "in_class d (Lit c) x = (x = c)"
| "in_class d Digit x = is_digit x"
| "in_class d Space x = is_space x"
| "in_class d AnyChar x = (d \<or> x \<noteq> CHR 0x0A)"
| "in_class d (Range a b) x = ((of_char a :: nat) \<le> of_char x \<and> (of_char x :: nat) \<le> of_char b)"
| "in_class d (Union cs) x = list_ex (\<lambda>c. in_class d c x) cs"

text \<open>Under IGNORECASE a character matches when its lower-case or its upper-case form
  does.\<close>

definition char_matches :: "flags \<Rightarrow> cclass \<Rightarrow> char \<Rightarrow> bool" where
  "char_matches fl c x =
     (if ignorecase fl
      then in_class (dotall fl) c (lower_char x) \<or> in_class (dotall fl) c (upper_char x)
      else in_class (dotall fl) c x)"

text \<open>
  A position in the text: the character before it (for \<^verbatim>\<open>\b\<close>), the text from it on,
  and the groups captured so far, the latest first.
\<close>

type_synonym mstate = "char option \<times> string \<times> (nat \<times> string) list"

definition remaining :: "mstate \<Rightarrow> string" where
  "remaining s = fst (snd s)"

definition word_before :: "char option \<Rightarrow> bool" where
  "word_before p = (case p of None \<Rightarrow> False | Some c \<Rightarrow> is_word c)"

definition word_after :: "string \<Rightarrow> bool" where
  "word_after rest = (case rest of [] \<Rightarrow> False | c # _ \<Rightarrow> is_word c)"

text \<open>
  The repetitions: \<open>n\<close> bounds the number of rounds by the length of the text left,
  and a round that consumes nothing is not repeated.
\<close>

fun star_greedy :: "(mstate \<Rightarrow> mstate list) \<Rightarrow> nat \<Rightarrow> mstate \<Rightarrow> mstate list" where
  "star_greedy f 0 s = [s]"
| "star_greedy f (Suc n) s =
     concat (map (\<lambda>s'. if length (remaining s') < length (remaining s)
                        then star_greedy f n s' else []) (f s)) @ [s]"

fun star_lazy :: "(mstate \<Rightarrow> mstate list) \<Rightarrow> nat \<Rightarrow> mstate \<Rightarrow> mstate list" where
  "star_lazy f 0 s = [s]"
| "star_lazy f (Suc n) s =
     s # concat (map (\<lambda>s'. if length (remaining s') < length (remaining s)
                            then star_lazy f n s' else []) (f s))"

primrec rmatch :: "flags \<Rightarrow> regex \<Rightarrow> mstate \<Rightarrow> mstate list" where
  "rmatch fl Eps s = [s]"
| "rmatch fl (Sym c) s =
     (case s of (p, rest, g) \<Rightarrow>
        (case rest of [] \<Rightarrow> []
         | x # xs \<Rightarrow> if char_matches fl c x then [(Some x, xs, g)] else []))"
| "rmatch fl (Cat r1 r2) s = concat (map (rmatch fl r2) (rmatch fl r1 s))"
| "rmatch fl (Or r1 r2) s = rmatch fl r1 s @ rmatch fl r2 s"
| "rmatch fl (Star r) s = star_greedy (rmatch fl r) (length (remaining s)) s"
| "rmatch fl (StarLazy r) s = star_lazy (rmatch fl r) (length (remaining s)) s"
| "rmatch fl (Group n r) s =
     map (\<lambda>(p', rest', g').
            (p', rest', (n, take (length (remaining s) - length rest') (remaining s)) # g'))
         (rmatch fl r s)"
| "rmatch fl WordB s =
     (case s of (p, rest, g) \<Rightarrow> if word_before p \<noteq> word_after rest then [s] else [])"
| "rmatch fl (Ahead r) s = (if rmatch fl r s = [] then [] else [s])"
| "rmatch fl Eot s =
     (if remaining s = [] \<or> remaining s = [CHR 0x0A]
         \<or> (multiline fl \<and> take 1 (remaining s) = [CHR 0x0A])
      then [s] else [])"

text \<open>The derived operators.\<close>

definition Plus :: "regex \<Rightarrow> regex" where
  "Plus r = Cat r (Star r)"

definition Opt :: "regex \<Rightarrow> regex" where
  "Opt r = Or r Eps"

fun cats :: "regex list \<Rightarrow> regex" where
  "cats [] = Eps"
| "cats [r] = r"
| "cats (r # rs) = Cat r (cats rs)"

fun alts :: "regex list \<Rightarrow> regex" where
  "alts [] = Eps"
| "alts [r] = r"
| "alts (r # rs) = Or r (alts rs)"

definition lit :: "string \<Rightarrow> regex" where
  "lit s = cats (map (\<lambda>c. Sym (Lit c)) s)"

text \<open>\<^verbatim>\<open>r{n,m}\<close>: \<open>n\<close> times \<open>r\<close>, then up to \<open>m - n\<close> times more, as many as
  possible first.\<close>

fun up_to :: "nat \<Rightarrow> regex \<Rightarrow> regex" where
  "up_to 0 r = Eps"
| "up_to (Suc k) r = Opt (Cat r (up_to k r))"

definition Repeat :: "nat \<Rightarrow> nat \<Rightarrow> regex \<Rightarrow> regex" where
  "Repeat n m r = cats (replicate n r @ [up_to (m - n) r])"

text \<open>A match object: the text matched (\<^verbatim>\<open>group(0)\<close>) and the numbered groups.\<close>

record match =
  matched :: string
  groups :: "(nat \<times> string) list"

definition group :: "match \<Rightarrow> nat \<Rightarrow> string option" where
  "group m n = (if n = 0 then Some (matched m) else map_of (groups m) n)"

definition mk_match :: "string \<Rightarrow> mstate \<Rightarrow> match" where
  "mk_match rest s =
     \<lparr>matched = take (length rest - length (remaining s)) rest, groups = snd (snd s)\<rparr>"

text \<open>\<^verbatim>\<open>re.search\<close>: the match at the leftmost position that has one.\<close>

fun search_from :: "flags \<Rightarrow> regex \<Rightarrow> char option \<Rightarrow> string \<Rightarrow> match option" where
  "search_from fl r p [] =
     (case rmatch fl r (p, [], []) of [] \<Rightarrow> None | s # _ \<Rightarrow> Some (mk_match [] s))"
| "search_from fl r p (x # xs) =
     (case rmatch fl r (p, x # xs, []) of
        [] \<Rightarrow> search_from fl r (Some x) xs
      | s # _ \<Rightarrow> Some (mk_match (x # xs) s))"

definition re_search :: "regex \<Rightarrow> string \<Rightarrow> flags \<Rightarrow> match option" where
  "re_search r text fl = search_from fl r None text"

text \<open>
  \<^verbatim>\<open>re.finditer\<close>: the matches from left to right, each search starting where the
  match before ended; \<open>k\<close> counts the characters of the last match still to be
  skipped. After an empty match the same position is tried once more for a match
  that is not empty, the preferred one first, before the search moves on.
\<close>

fun finditer_from :: "flags \<Rightarrow> regex \<Rightarrow> char option \<Rightarrow> string \<Rightarrow> nat \<Rightarrow> match list" where
  "finditer_from fl r p [] k =
     (if k = 0 then
        (case rmatch fl r (p, [], []) of [] \<Rightarrow> [] | s # _ \<Rightarrow> [mk_match [] s])
      else [])"
| "finditer_from fl r p (x # xs) k =
     (if k = 0 then
        (case rmatch fl r (p, x # xs, []) of
           [] \<Rightarrow> finditer_from fl r (Some x) xs 0
         | s # ss \<Rightarrow>
             if length (remaining s) < length (x # xs) then
               mk_match (x # xs) s
                 # finditer_from fl r (Some x) xs (length (x # xs) - length (remaining s) - 1)
             else
               (case filter (\<lambda>s'. length (remaining s') < length (x # xs)) ss of
                  [] \<Rightarrow> mk_match (x # xs) s # finditer_from fl r (Some x) xs 0
                | s' # _ \<Rightarrow>
                    mk_match (x # xs) s # mk_match (x # xs) s'
                      # finditer_from fl r (Some x) xs
                          (length (x # xs) - length (remaining s') - 1)))
      else finditer_from fl r (Some x) xs (k - 1))"

definition re_finditer :: "regex \<Rightarrow> string \<Rightarrow> flags \<Rightarrow> match list" where
  "re_finditer r text fl = finditer_from fl r None text 0"

subsection \<open>Rounding to the nearest integer, a tie going to the even one\<close>

definition round_half_even :: "real \<Rightarrow> int" where
  "round_half_even x =
     (let f = \<lfloor>x\<rfloor>; d = x - of_int f
      in if d < 1 / 2 then f
         else if 1 / 2 < d then f + 1
         else if even f then f else f + 1)"

subsection \<open>Floating-point numbers\<close>

text \<open>
  A Python \<^verbatim>\<open>float\<close> is a number of the IEEE 754 format binary64: a finite number
  \<open>m * 2 ^ (e - 52)\<close> with an integer \<open>m\<close> of magnitude below \<open>2 ^ 53\<close> and an exponent
  \<open>e\<close> from \<open>-1022\<close> to \<open>1023\<close>, an infinity, or NaN. The two zeros compare equal and
  are one value here. An operation returns the number of the format nearest to its
  exact result, a tie going to the even \<open>m\<close>. \<open>expo x\<close> is the exponent \<open>e\<close> of the
  numbers around \<open>x\<close>, \<open>rnd\<close> is that rounding with exponents unbounded above, and
  \<open>to_float\<close> makes an infinity of a result that leaves the format.
\<close>

datatype float = Finite real | PosInf | NegInf | NaN

definition expo :: "real \<Rightarrow> int" where
  "expo x = max \<lfloor>log 2 \<bar>x\<bar>\<rfloor> (- 1022)"

definition rnd :: "real \<Rightarrow> real" where
  "rnd x =
     (if x = 0 then 0
      else of_int (round_half_even (x / 2 powi (expo x - 52))) * 2 powi (expo x - 52))"

definition to_float :: "real \<Rightarrow> float" where
  "to_float x =
     (let y = rnd x
      in if 2 ^ 1024 \<le> y then PosInf else if y \<le> - (2 ^ 1024) then NegInf else Finite y)"

text \<open>Sum and product of two floats; an infinity less itself and zero times an
  infinity are NaN.\<close>

fun fadd :: "float \<Rightarrow> float \<Rightarrow> float" where
  "fadd (Finite a) (Finite b) = to_float (a + b)"
| "fadd NaN y = NaN"
| "fadd x NaN = NaN"
| "fadd (Finite a) y = y"
| "fadd x (Finite b) = x"
| "fadd x y = (if x = y then x else NaN)"

definition fneg :: "float \<Rightarrow> float" where
  "fneg x = (case x of Finite a \<Rightarrow> Finite (- a) | PosInf \<Rightarrow> NegInf | NegInf \<Rightarrow> PosInf
             | NaN \<Rightarrow> NaN)"

fun fmul :: "float \<Rightarrow> float \<Rightarrow> float" where
  "fmul (Finite a) (Finite b) = to_float (a * b)"
| "fmul NaN y = NaN"
| "fmul x NaN = NaN"
| "fmul (Finite a) y = (if a = 0 then NaN else if 0 < a then y else fneg y)"
| "fmul x (Finite b) = (if b = 0 then NaN else if 0 < b then x else fneg x)"
| "fmul x y = (if x = y then PosInf else NegInf)"

text \<open>
  The quotient \<^verbatim>\<open>a / b\<close> of two integers: the float nearest to the exact quotient, and
  an OverflowError when that leaves the format.
\<close>

definition int_true_div :: "int \<Rightarrow> int \<Rightarrow> py_error + real" where
  "int_true_div a b =
     (if b = 0 then Inl ZeroDivisionError
      else case to_float (real_of_int a / real_of_int b) of
             Finite q \<Rightarrow> Inr q
           | _ \<Rightarrow> Inl OverflowError)"

text \<open>
  The built-in \<^verbatim>\<open>round(x, 2)\<close> of a float: the exact value of \<open>x\<close> is rounded to the
  nearest multiple of \<open>1/100\<close>, a tie going to the even one, and the result is the
  float nearest to that decimal. An infinity and NaN are returned as they are.
\<close>

fun py_round2 :: "float \<Rightarrow> float" where
  "py_round2 (Finite x) = to_float (of_int (round_half_even (x * 100)) / 100)"
| "py_round2 x = x"

section \<open>The tries and loops over matches\<close>

text \<open>
  \<^verbatim>\<open>int(match.group(1))\<close> inside \<^verbatim>\<open>try ... except (ValueError, IndexError): continue\<close>:
  \<open>Inr None\<close> is the ValueError the handler catches; a group that took no part in
  the match is Python's \<^verbatim>\<open>None\<close>, and \<^verbatim>\<open>int(None)\<close> raises the TypeError no handler
  catches.
\<close>

definition group_int :: "match \<Rightarrow> nat \<Rightarrow> py_error + int option" where
  "group_int m n = (case group m n of None \<Rightarrow> Inl TypeError | Some s \<Rightarrow> Inr (int_of_str s))"

text \<open>
  The loop \<^verbatim>\<open>for match in matches: ... years.append(year)\<close> of both experience
  extractors; \<open>keep\<close> is the sanity check (none on the side of the job description).
\<close>

fun years_of_matches :: "(int \<Rightarrow> bool) \<Rightarrow> match list \<Rightarrow> py_error + int list" where
  "years_of_matches keep [] = Inr []"
| "years_of_matches keep (m # ms) =
     (case group_int m 1 of
        Inl e \<Rightarrow> Inl e
      | Inr None \<Rightarrow> years_of_matches keep ms
      | Inr (Some year) \<Rightarrow>
          (case years_of_matches keep ms of
             Inl e \<Rightarrow> Inl e
           | Inr years \<Rightarrow> Inr (if keep year then year # years else years)))"

text \<open>The loop \<^verbatim>\<open>for pattern in patterns\<close> around it.\<close>

fun years_of_patterns ::
  "(int \<Rightarrow> bool) \<Rightarrow> flags \<Rightarrow> regex list \<Rightarrow> string \<Rightarrow> py_error + int list" where
  "years_of_patterns keep fl [] text = Inr []"
| "years_of_patterns keep fl (pattern # ps) text =
     (case years_of_matches keep (re_finditer pattern text fl) of
        Inl e \<Rightarrow> Inl e
      | Inr years \<Rightarrow>
          (case years_of_patterns keep fl ps text of
             Inl e \<Rightarrow> Inl e
           | Inr later \<Rightarrow> Inr (years @ later)))"

section \<open>extractors/keyword_extractor.py\<close>

text \<open>
  The patterns of \<^verbatim>\<open>extract_experience_years\<close> and of
  \<^verbatim>\<open>_calculate_experience_from_dates\<close>. The class \<^verbatim>\<open>[-<en dash>]\<close> of the date patterns
  holds the hyphen and the en dash; the en dash is no ASCII character, so among the
  characters of the model the class is the hyphen. Names lose the leading underscore
  of the source.
\<close>

definition patterns :: "regex list" where
  \<open>patterns =
    [\<comment> \<open>\<^verbatim>\<open>(\d+)\+?\s*(?:years?|yrs?).*?(?:experience|exp)\<close>\<close>
     cats [Group 1 (Plus (Sym Digit)), Opt (lit ''+''), Star (Sym Space),
     alts [cats [lit ''year'', Opt (lit ''s'')], cats [lit ''yr'', Opt (lit ''s'')]],
     StarLazy (Sym AnyChar), alts [lit ''experience'', lit ''exp'']],
     \<comment> \<open>\<^verbatim>\<open>(?:experience|exp).*?(\d+)\+?\s*(?:years?|yrs?)\<close>\<close>
     cats [alts [lit ''experience'', lit ''exp''], StarLazy (Sym AnyChar),
     Group 1 (Plus (Sym Digit)), Opt (lit ''+''), Star (Sym Space), alts [cats [lit ''year'',
     Opt (lit ''s'')], cats [lit ''yr'', Opt (lit ''s'')]]],
     \<comment> \<open>\<^verbatim>\<open>over\s+(\d+)\s+(?:years?|yrs?)\<close>\<close>
     cats [lit ''over'', Plus (Sym Space), Group 1 (Plus (Sym Digit)), Plus (Sym Space),
     alts [cats [lit ''year'', Opt (lit ''s'')], cats [lit ''yr'', Opt (lit ''s'')]]],
     \<comment> \<open>\<^verbatim>\<open>more\s+than\s+(\d+)\s+(?:years?|yrs?)\<close>\<close>
     cats [lit ''more'', Plus (Sym Space), lit ''than'', Plus (Sym Space),
     Group 1 (Plus (Sym Digit)), Plus (Sym Space), alts [cats [lit ''year'', Opt (lit ''s'')],
     cats [lit ''yr'', Opt (lit ''s'')]]]]\<close>

definition date_patterns :: "regex list" where
  \<open>date_patterns =
    [\<comment> \<open>\<^verbatim>\<open>(\d{4})\s*[-<en dash>]\s*(\d{4}|present|current)\<close>\<close>
     cats [Group 1 (Repeat 4 4 (Sym Digit)), Star (Sym Space), Sym (Lit CHR ''-''),
     Star (Sym Space), Group 2 (alts [Repeat 4 4 (Sym Digit), lit ''present'',
     lit ''current''])],
     \<comment> \<open>\<^verbatim>\<open>(\d{1,2}/\d{4})\s*[-<en dash>]\s*(\d{1,2}/\d{4}|present|current)\<close>\<close>
     cats [Group 1 (cats [Repeat 1 2 (Sym Digit), lit ''/'', Repeat 4 4 (Sym Digit)]),
     Star (Sym Space), Sym (Lit CHR ''-''), Star (Sym Space),
     Group 2 (alts [cats [Repeat 1 2 (Sym Digit), lit ''/'', Repeat 4 4 (Sym Digit)],
     lit ''present'', lit ''current''])]]\<close>

definition year_pattern :: regex where
  \<open>year_pattern =
     \<comment> \<open>\<^verbatim>\<open>\d{4}\<close>\<close>
     Repeat 4 4 (Sym Digit)\<close>

text \<open>
  One employment range: \<open>Inr None\<close> when the range is skipped by the handler of
  \<^verbatim>\<open>(ValueError, AttributeError)\<close>, \<open>Inr (Some years)\<close> for its span.
\<close>

definition year_of :: "string \<Rightarrow> int option" where
  "year_of s =
     (case re_search year_pattern s no_flags of
        None \<Rightarrow> None
      | Some m \<Rightarrow> int_of_str (matched m))"

definition date_span :: "match \<Rightarrow> py_error + int option" where
  "date_span m =
     (case group m 1 of
        None \<Rightarrow> Inl TypeError
      | Some start \<Rightarrow>
          (case year_of start of
             None \<Rightarrow> Inr None
           | Some start_year \<Rightarrow>
               (case group m 2 of
                  None \<Rightarrow> Inr None
                | Some end \<Rightarrow>
                    (case (if lower end \<in> set [''present'', ''current''] then Some 2026
                           else year_of end) of
                       None \<Rightarrow> Inr None
                     | Some end_year \<Rightarrow> Inr (Some (max 0 (end_year - start_year)))))))"

fun total_of_matches :: "match list \<Rightarrow> py_error + int" where
  "total_of_matches [] = Inr 0"
| "total_of_matches (m # ms) =
     (case date_span m of
        Inl e \<Rightarrow> Inl e
      | Inr None \<Rightarrow> total_of_matches ms
      | Inr (Some years) \<Rightarrow>
          (case total_of_matches ms of
             Inl e \<Rightarrow> Inl e
           | Inr total_years \<Rightarrow>
               Inr (if years > 0 \<and> years < 30 then years + total_years else total_years)))"

fun total_of_patterns :: "regex list \<Rightarrow> string \<Rightarrow> py_error + int" where
  "total_of_patterns [] text = Inr 0"
| "total_of_patterns (pattern # ps) text =
     (case total_of_matches (re_finditer pattern text IGNORECASE) of
        Inl e \<Rightarrow> Inl e
      | Inr total_years \<Rightarrow>
          (case total_of_patterns ps text of
             Inl e \<Rightarrow> Inl e
           | Inr later \<Rightarrow> Inr (total_years + later)))"

definition calculate_experience_from_dates :: "string \<Rightarrow> py_error + int" where
  "calculate_experience_from_dates text = total_of_patterns date_patterns text"

definition extract_experience_years :: "string \<Rightarrow> py_error + int" where
  "extract_experience_years text =
     (let text_lower = lower text
      in case years_of_patterns (\<lambda>year. 0 < year \<and> year < 50) no_flags patterns text_lower of
           Inl e \<Rightarrow> Inl e
         | Inr years \<Rightarrow>
             (case calculate_experience_from_dates text of
                Inl e \<Rightarrow> Inl e
              | Inr date_years \<Rightarrow>
                  let years' = (if date_years \<noteq> 0 then years @ [date_years] else years)
                  in Inr (if years' \<noteq> [] then Max (set years') else 0)))"

section \<open>parsers/jd_parser.py\<close>

definition required_keywords :: "string list" where
  "required_keywords =
    [''required'', ''must have'', ''mandatory'', ''essential'', ''required skills'',
     ''requirements'', ''must possess'', ''key requirements'', ''core skills'',
     ''minimum qualifications'', ''basic qualifications'', ''what you need'', ''what we need'',
     ''you must have'', ''you should have'', ''necessary skills'', ''technical requirements'',
     ''hard requirements'', ''non-negotiable'', ''qualifications required'', ''skills required'',
     ''expected skills'', ''we are looking for'', ''we expect'', ''you will need'']"

definition preferred_keywords :: "string list" where
  "preferred_keywords =
    [''preferred'', ''nice to have'', ''desired'', ''plus'', ''preferred skills'', ''bonus'',
     ''advantage'', ''good to have'', ''additional skills'', ''preferred qualifications'',
     ''a plus'', ''ideal candidate'', ''would be nice'', ''beneficial'', ''extra credit'',
     ''not required but'', ''optional'', ''added advantage'', ''brownie points'',
     ''icing on the cake'', ''it would be great if'', ''even better if'', ''extra skills'']"

definition experience_patterns :: "regex list" where
  \<open>experience_patterns =
    [\<comment> \<open>\<^verbatim>\<open>(\d+)\+?\s*(?:years?|yrs?).*?(?:experience|exp)\<close>\<close>
     cats [Group 1 (Plus (Sym Digit)), Opt (lit ''+''), Star (Sym Space),
     alts [cats [lit ''year'', Opt (lit ''s'')], cats [lit ''yr'', Opt (lit ''s'')]],
     StarLazy (Sym AnyChar), alts [lit ''experience'', lit ''exp'']],
     \<comment> \<open>\<^verbatim>\<open>(?:experience|exp).*?(\d+)\+?\s*(?:years?|yrs?)\<close>\<close>
     cats [alts [lit ''experience'', lit ''exp''], StarLazy (Sym AnyChar),
     Group 1 (Plus (Sym Digit)), Opt (lit ''+''), Star (Sym Space), alts [cats [lit ''year'',
     Opt (lit ''s'')], cats [lit ''yr'', Opt (lit ''s'')]]],
     \<comment> \<open>\<^verbatim>\<open>minimum\s+(\d+)\s+(?:years?|yrs?)\<close>\<close>
     cats [lit ''minimum'', Plus (Sym Space), Group 1 (Plus (Sym Digit)), Plus (Sym Space),
     alts [cats [lit ''year'', Opt (lit ''s'')], cats [lit ''yr'', Opt (lit ''s'')]]],
     \<comment> \<open>\<^verbatim>\<open>at\s+least\s+(\d+)\s+(?:years?|yrs?)\<close>\<close>
     cats [lit ''at'', Plus (Sym Space), lit ''least'', Plus (Sym Space),
     Group 1 (Plus (Sym Digit)), Plus (Sym Space), alts [cats [lit ''year'', Opt (lit ''s'')],
     cats [lit ''yr'', Opt (lit ''s'')]]],
     \<comment> \<open>\<^verbatim>\<open>(\d+)\s*-\s*\d+\s*(?:years?|yrs?)\<close>\<close>
     cats [Group 1 (Plus (Sym Digit)), Star (Sym Space), lit ''-'', Star (Sym Space),
     Plus (Sym Digit), Star (Sym Space), alts [cats [lit ''year'', Opt (lit ''s'')],
     cats [lit ''yr'', Opt (lit ''s'')]]],
     \<comment> \<open>\<^verbatim>\<open>(\d+)\s*to\s*\d+\s*(?:years?|yrs?)\<close>\<close>
     cats [Group 1 (Plus (Sym Digit)), Star (Sym Space), lit ''to'', Star (Sym Space),
     Plus (Sym Digit), Star (Sym Space), alts [cats [lit ''year'', Opt (lit ''s'')],
     cats [lit ''yr'', Opt (lit ''s'')]]],
     \<comment> \<open>\<^verbatim>\<open>over\s+(\d+)\s+(?:years?|yrs?)\<close>\<close>
     cats [lit ''over'', Plus (Sym Space), Group 1 (Plus (Sym Digit)), Plus (Sym Space),
     alts [cats [lit ''year'', Opt (lit ''s'')], cats [lit ''yr'', Opt (lit ''s'')]]],
     \<comment> \<open>\<^verbatim>\<open>more\s+than\s+(\d+)\s+(?:years?|yrs?)\<close>\<close>
     cats [lit ''more'', Plus (Sym Space), lit ''than'', Plus (Sym Space),
     Group 1 (Plus (Sym Digit)), Plus (Sym Space), alts [cats [lit ''year'', Opt (lit ''s'')],
     cats [lit ''yr'', Opt (lit ''s'')]]],
     \<comment> \<open>\<^verbatim>\<open>(\d+)\+\s*(?:years?|yrs?)\<close>\<close>
     cats [Group 1 (Plus (Sym Digit)), lit ''+'', Star (Sym Space), alts [cats [lit ''year'',
     Opt (lit ''s'')], cats [lit ''yr'', Opt (lit ''s'')]]],
     \<comment> \<open>\<^verbatim>\<open>around\s+(\d+)\s+(?:years?|yrs?)\<close>\<close>
     cats [lit ''around'', Plus (Sym Space), Group 1 (Plus (Sym Digit)), Plus (Sym Space),
     alts [cats [lit ''year'', Opt (lit ''s'')], cats [lit ''yr'', Opt (lit ''s'')]]]]\<close>

definition extract_experience :: "string \<Rightarrow> py_error + int" where
  "extract_experience text =
     (case years_of_patterns (\<lambda>year. True) IGNORECASE experience_patterns text of
        Inl e \<Rightarrow> Inl e
      | Inr years \<Rightarrow> Inr (if years \<noteq> [] then Min (set years) else 0))"

text \<open>
  The pattern \<^verbatim>\<open>rf'{keyword}[:\s]+(.*?)(?={"|".join(others)}|$)'\<close> of
  \<^verbatim>\<open>_split_sections\<close>. The heading phrases hold letters, blanks and hyphens only, so
  each stands for itself in the pattern.
\<close>

definition section_pattern :: "string \<Rightarrow> string list \<Rightarrow> regex" where
  "section_pattern keyword others =
     cats [lit keyword, Plus (Sym (Union [Lit CHR '':'', Space])),
           Group 1 (StarLazy (Sym AnyChar)), Ahead (alts (map lit others @ [Eot]))]"

text \<open>The loop \<^verbatim>\<open>for keyword in ...: ... text += match.group(1) + " "\<close>; the group
  of a match that did not set it is \<^verbatim>\<open>None\<close>, and adding a string to it a TypeError.\<close>

fun section_text :: "string list \<Rightarrow> string list \<Rightarrow> string \<Rightarrow> py_error + string" where
  "section_text [] others text = Inr []"
| "section_text (keyword # ks) others text =
     (case re_search (section_pattern keyword others) text IGNORECASE_DOTALL of
        None \<Rightarrow> section_text ks others text
      | Some m \<Rightarrow>
          (case group m 1 of
             None \<Rightarrow> Inl TypeError
           | Some g \<Rightarrow>
               (case section_text ks others text of
                  Inl e \<Rightarrow> Inl e
                | Inr later \<Rightarrow> Inr (g @ '' '' @ later))))"

definition split_sections :: "string \<Rightarrow> py_error + string \<times> string" where
  "split_sections text =
     (case section_text required_keywords preferred_keywords text of
        Inl e \<Rightarrow> Inl e
      | Inr required_text \<Rightarrow>
          (case section_text preferred_keywords required_keywords text of
             Inl e \<Rightarrow> Inl e
           | Inr preferred_text \<Rightarrow> Inr (strip required_text, strip preferred_text)))"

definition skill_patterns :: "regex list" where
  \<open>skill_patterns =
    [\<comment> \<open>\<^verbatim>\<open>\b(java|python|javascript|typescript|c\+\+|c#|c|ruby|php|go|golang|rust|swift|kotlin|scala|perl|r|matlab|vba|bash|shell|powershell)\b\<close>\<close>
     cats [WordB, Group 1 (alts [lit ''java'', lit ''python'', lit ''javascript'',
     lit ''typescript'', lit ''c++'', lit ''c#'', lit ''c'', lit ''ruby'', lit ''php'',
     lit ''go'', lit ''golang'', lit ''rust'', lit ''swift'', lit ''kotlin'', lit ''scala'',
     lit ''perl'', lit ''r'', lit ''matlab'', lit ''vba'', lit ''bash'', lit ''shell'',
     lit ''powershell'']), WordB],
     \<comment> \<open>\<^verbatim>\<open>\b(spring|spring\s*boot|spring\s*mvc|spring\s*cloud|hibernate|jpa|jdbc|j2ee|jee|java\s*ee|servlets|jsp|jsf|struts|maven|gradle|tomcat|jboss|wildfly|weblogic|websphere)\b\<close>\<close>
     cats [WordB, Group 1 (alts [lit ''spring'', cats [lit ''spring'', Star (Sym Space),
     lit ''boot''], cats [lit ''spring'', Star (Sym Space), lit ''mvc''], cats [lit ''spring'',
     Star (Sym Space), lit ''cloud''], lit ''hibernate'', lit ''jpa'', lit ''jdbc'',
     lit ''j2ee'', lit ''jee'', cats [lit ''java'', Star (Sym Space), lit ''ee''],
     lit ''servlets'', lit ''jsp'', lit ''jsf'', lit ''struts'', lit ''maven'', lit ''gradle'',
     lit ''tomcat'', lit ''jboss'', lit ''wildfly'', lit ''weblogic'', lit ''websphere'']),
     WordB],
     \<comment> \<open>\<^verbatim>\<open>\b(django|flask|fastapi|pandas|numpy|scipy|tensorflow|pytorch|keras|scikit-learn|sklearn|celery|asyncio)\b\<close>\<close>
     cats [WordB, Group 1 (alts [lit ''django'', lit ''flask'', lit ''fastapi'', lit ''pandas'',
     lit ''numpy'', lit ''scipy'', lit ''tensorflow'', lit ''pytorch'', lit ''keras'',
     lit ''scikit-learn'', lit ''sklearn'', lit ''celery'', lit ''asyncio'']), WordB],
     \<comment> \<open>\<^verbatim>\<open>\b(react|react\.?js|angular|angular\.?js|vue|vue\.?js|next\.?js|nuxt|svelte|ember|backbone|jquery|redux|mobx|webpack|babel|vite|npm|yarn|pnpm)\b\<close>\<close>
     cats [WordB, Group 1 (alts [lit ''react'', cats [lit ''react'', Opt (lit ''.''),
     lit ''js''], lit ''angular'', cats [lit ''angular'', Opt (lit ''.''), lit ''js''],
     lit ''vue'', cats [lit ''vue'', Opt (lit ''.''), lit ''js''], cats [lit ''next'',
     Opt (lit ''.''), lit ''js''], lit ''nuxt'', lit ''svelte'', lit ''ember'', lit ''backbone'',
     lit ''jquery'', lit ''redux'', lit ''mobx'', lit ''webpack'', lit ''babel'', lit ''vite'',
     lit ''npm'', lit ''yarn'', lit ''pnpm'']), WordB],
     \<comment> \<open>\<^verbatim>\<open>\b(node\.?js|express\.?js|express|nestjs|nest\.?js|asp\.net|\.net|\.net\s*core|rails|ruby\s*on\s*rails|laravel|symfony|codeigniter|gin|echo|fiber)\b\<close>\<close>
     cats [WordB, Group 1 (alts [cats [lit ''node'', Opt (lit ''.''), lit ''js''],
     cats [lit ''express'', Opt (lit ''.''), lit ''js''], lit ''express'', lit ''nestjs'',
     cats [lit ''nest'', Opt (lit ''.''), lit ''js''], lit ''asp.net'', lit ''.net'',
     cats [lit ''.net'', Star (Sym Space), lit ''core''], lit ''rails'', cats [lit ''ruby'',
     Star (Sym Space), lit ''on'', Star (Sym Space), lit ''rails''], lit ''laravel'',
     lit ''symfony'', lit ''codeigniter'', lit ''gin'', lit ''echo'', lit ''fiber'']), WordB],
     \<comment> \<open>\<^verbatim>\<open>\b(mysql|postgresql|postgres|mongodb|mongo|oracle|sql\s*server|mssql|sqlite|redis|cassandra|dynamodb|couchdb|mariadb|neo4j|elasticsearch|elastic)\b\<close>\<close>
     cats [WordB, Group 1 (alts [lit ''mysql'', lit ''postgresql'', lit ''postgres'',
     lit ''mongodb'', lit ''mongo'', lit ''oracle'', cats [lit ''sql'', Star (Sym Space),
     lit ''server''], lit ''mssql'', lit ''sqlite'', lit ''redis'', lit ''cassandra'',
     lit ''dynamodb'', lit ''couchdb'', lit ''mariadb'', lit ''neo4j'', lit ''elasticsearch'',
     lit ''elastic'']), WordB],
     \<comment> \<open>\<^verbatim>\<open>\b(sql|nosql|plsql|pl/sql|t-sql|rdbms|database)\b\<close>\<close>
     cats [WordB, Group 1 (alts [lit ''sql'', lit ''nosql'', lit ''plsql'', lit ''pl/sql'',
     lit ''t-sql'', lit ''rdbms'', lit ''database'']), WordB],
     \<comment> \<open>\<^verbatim>\<open>\b(aws|amazon\s*web\s*services|azure|microsoft\s*azure|gcp|google\s*cloud|cloud|heroku|digitalocean|linode|vercel|netlify)\b\<close>\<close>
     cats [WordB, Group 1 (alts [lit ''aws'', cats [lit ''amazon'', Star (Sym Space),
     lit ''web'', Star (Sym Space), lit ''services''], lit ''azure'', cats [lit ''microsoft'',
     Star (Sym Space), lit ''azure''], lit ''gcp'', cats [lit ''google'', Star (Sym Space),
     lit ''cloud''], lit ''cloud'', lit ''heroku'', lit ''digitalocean'', lit ''linode'',
     lit ''vercel'', lit ''netlify'']), WordB],
     \<comment> \<open>\<^verbatim>\<open>\b(ec2|s3|lambda|rds|dynamodb|sqs|sns|cloudfront|cloudwatch|ecs|eks|fargate|api\s*gateway|cognito|iam)\b\<close>\<close>
     cats [WordB, Group 1 (alts [lit ''ec2'', lit ''s3'', lit ''lambda'', lit ''rds'',
     lit ''dynamodb'', lit ''sqs'', lit ''sns'', lit ''cloudfront'', lit ''cloudwatch'',
     lit ''ecs'', lit ''eks'', lit ''fargate'', cats [lit ''api'', Star (Sym Space),
     lit ''gateway''], lit ''cognito'', lit ''iam'']), WordB],
     \<comment> \<open>\<^verbatim>\<open>\b(docker|kubernetes|k8s|jenkins|git|github|gitlab|bitbucket|ci/cd|cicd|terraform|ansible|puppet|chef|vagrant|helm|argocd)\b\<close>\<close>
     cats [WordB, Group 1 (alts [lit ''docker'', lit ''kubernetes'', lit ''k8s'',
     lit ''jenkins'', lit ''git'', lit ''github'', lit ''gitlab'', lit ''bitbucket'',
     lit ''ci/cd'', lit ''cicd'', lit ''terraform'', lit ''ansible'', lit ''puppet'',
     lit ''chef'', lit ''vagrant'', lit ''helm'', lit ''argocd'']), WordB],
     \<comment> \<open>\<^verbatim>\<open>\b(html5?|css3?|sass|scss|less|tailwind|bootstrap|xml|json|yaml|rest|restful|soap|graphql|api|apis|microservices|micro-services)\b\<close>\<close>
     cats [WordB, Group 1 (alts [cats [lit ''html'', Opt (lit ''5'')], cats [lit ''css'',
     Opt (lit ''3'')], lit ''sass'', lit ''scss'', lit ''less'', lit ''tailwind'',
     lit ''bootstrap'', lit ''xml'', lit ''json'', lit ''yaml'', lit ''rest'', lit ''restful'',
     lit ''soap'', lit ''graphql'', lit ''api'', lit ''apis'', lit ''microservices'',
     lit ''micro-services'']), WordB],
     \<comment> \<open>\<^verbatim>\<open>\b(kafka|rabbitmq|activemq|sqs|redis|celery|zeromq|pulsar)\b\<close>\<close>
     cats [WordB, Group 1 (alts [lit ''kafka'', lit ''rabbitmq'', lit ''activemq'', lit ''sqs'',
     lit ''redis'', lit ''celery'', lit ''zeromq'', lit ''pulsar'']), WordB],
     \<comment> \<open>\<^verbatim>\<open>\b(junit|testng|mockito|jest|mocha|chai|cypress|selenium|pytest|unittest|rspec|jasmine|karma|protractor)\b\<close>\<close>
     cats [WordB, Group 1 (alts [lit ''junit'', lit ''testng'', lit ''mockito'', lit ''jest'',
     lit ''mocha'', lit ''chai'', lit ''cypress'', lit ''selenium'', lit ''pytest'',
     lit ''unittest'', lit ''rspec'', lit ''jasmine'', lit ''karma'', lit ''protractor'']),
     WordB],
     \<comment> \<open>\<^verbatim>\<open>\b(jira|confluence|trello|asana|slack|teams|notion|monday)\b\<close>\<close>
     cats [WordB, Group 1 (alts [lit ''jira'', lit ''confluence'', lit ''trello'', lit ''asana'',
     lit ''slack'', lit ''teams'', lit ''notion'', lit ''monday'']), WordB],
     \<comment> \<open>\<^verbatim>\<open>\b(agile|scrum|kanban|waterfall|tdd|bdd|ddd|lean|xp|extreme\s*programming|devops|devsecops)\b\<close>\<close>
     cats [WordB, Group 1 (alts [lit ''agile'', lit ''scrum'', lit ''kanban'', lit ''waterfall'',
     lit ''tdd'', lit ''bdd'', lit ''ddd'', lit ''lean'', lit ''xp'', cats [lit ''extreme'',
     Star (Sym Space), lit ''programming''], lit ''devops'', lit ''devsecops'']), WordB],
     \<comment> \<open>\<^verbatim>\<open>\b(hadoop|spark|hive|pig|airflow|etl|data\s*warehouse|snowflake|redshift|bigquery|tableau|power\s*bi|looker)\b\<close>\<close>
     cats [WordB, Group 1 (alts [lit ''hadoop'', lit ''spark'', lit ''hive'', lit ''pig'',
     lit ''airflow'', lit ''etl'', cats [lit ''data'', Star (Sym Space), lit ''warehouse''],
     lit ''snowflake'', lit ''redshift'', lit ''bigquery'', lit ''tableau'', cats [lit ''power'',
     Star (Sym Space), lit ''bi''], lit ''looker'']), WordB],
     \<comment> \<open>\<^verbatim>\<open>\b(android|ios|react\s*native|flutter|xamarin|ionic|swift|objective-c|kotlin)\b\<close>\<close>
     cats [WordB, Group 1 (alts [lit ''android'', lit ''ios'', cats [lit ''react'',
     Star (Sym Space), lit ''native''], lit ''flutter'', lit ''xamarin'', lit ''ionic'',
     lit ''swift'', lit ''objective-c'', lit ''kotlin'']), WordB],
     \<comment> \<open>\<^verbatim>\<open>\b(oauth|jwt|ssl|tls|https|encryption|security|owasp|penetration|vulnerability)\b\<close>\<close>
     cats [WordB, Group 1 (alts [lit ''oauth'', lit ''jwt'', lit ''ssl'', lit ''tls'',
     lit ''https'', lit ''encryption'', lit ''security'', lit ''owasp'', lit ''penetration'',
     lit ''vulnerability'']), WordB],
     \<comment> \<open>\<^verbatim>\<open>\b(prometheus|grafana|elk|splunk|datadog|newrelic|dynatrace|logstash|kibana)\b\<close>\<close>
     cats [WordB, Group 1 (alts [lit ''prometheus'', lit ''grafana'', lit ''elk'',
     lit ''splunk'', lit ''datadog'', lit ''newrelic'', lit ''dynatrace'', lit ''logstash'',
     lit ''kibana'']), WordB],
     \<comment> \<open>\<^verbatim>\<open>\b(git|svn|subversion|mercurial|github|gitlab|bitbucket)\b\<close>\<close>
     cats [WordB, Group 1 (alts [lit ''git'', lit ''svn'', lit ''subversion'', lit ''mercurial'',
     lit ''github'', lit ''gitlab'', lit ''bitbucket'']), WordB],
     \<comment> \<open>\<^verbatim>\<open>\b(mvc|mvvm|mvp|clean\s*architecture|hexagonal|cqrs|event\s*sourcing|saga|domain\s*driven)\b\<close>\<close>
     cats [WordB, Group 1 (alts [lit ''mvc'', lit ''mvvm'', lit ''mvp'', cats [lit ''clean'',
     Star (Sym Space), lit ''architecture''], lit ''hexagonal'', lit ''cqrs'',
     cats [lit ''event'', Star (Sym Space), lit ''sourcing''], lit ''saga'',
     cats [lit ''domain'', Star (Sym Space), lit ''driven'']]), WordB]]\<close>

definition normalizations :: "(string \<times> string) list" where
  "normalizations =
    [(''react.js'', ''react''),
     (''reactjs'', ''react''),
     (''vue.js'', ''vue''),
     (''vuejs'', ''vue''),
     (''node.js'', ''nodejs''),
     (''express.js'', ''express''),
     (''next.js'', ''nextjs''),
     (''angular.js'', ''angular''),
     (''angularjs'', ''angular''),
     (''nest.js'', ''nestjs''),
     (''golang'', ''go''),
     (''postgres'', ''postgresql''),
     (''mongo'', ''mongodb''),
     (''k8s'', ''kubernetes''),
     (''amazon web services'', ''aws''),
     (''microsoft azure'', ''azure''),
     (''google cloud'', ''gcp''),
     (''pl/sql'', ''plsql''),
     (''mssql'', ''sql server'')]"

definition normalize_skill :: "string \<Rightarrow> string" where
  "normalize_skill skill =
     (let skill' = strip (lower skill)
      in case map_of normalizations skill' of None \<Rightarrow> skill' | Some v \<Rightarrow> v)"

text \<open>The loops of \<^verbatim>\<open>_extract_skills\<close>; \<^verbatim>\<open>None.strip()\<close> is an AttributeError.\<close>

fun skills_of_matches :: "match list \<Rightarrow> py_error + string set" where
  "skills_of_matches [] = Inr {}"
| "skills_of_matches (m # ms) =
     (case group m 1 of
        None \<Rightarrow> Inl AttributeError
      | Some g \<Rightarrow>
          (case skills_of_matches ms of
             Inl e \<Rightarrow> Inl e
           | Inr skills \<Rightarrow>
               let skill = strip g
               in Inr (if skill \<noteq> [] then insert (normalize_skill skill) skills else skills)))"

fun skills_of_patterns :: "regex list \<Rightarrow> string \<Rightarrow> py_error + string set" where
  "skills_of_patterns [] text = Inr {}"
| "skills_of_patterns (pattern # ps) text =
     (case skills_of_matches (re_finditer pattern text IGNORECASE) of
        Inl e \<Rightarrow> Inl e
      | Inr skills \<Rightarrow>
          (case skills_of_patterns ps text of
             Inl e \<Rightarrow> Inl e
           | Inr later \<Rightarrow> Inr (skills \<union> later)))"

definition extract_skills :: "string \<Rightarrow> py_error + string set" where
  "extract_skills text = skills_of_patterns skill_patterns text"

definition cap_pattern :: regex where
  \<open>cap_pattern =
     \<comment> \<open>\<^verbatim>\<open>\b([A-Z][a-z]+(?:\s+[A-Z][a-z]+)*)\b\<close>\<close>
     cats [WordB, Group 1 (cats [Sym (Range CHR ''A'' CHR ''Z''),
     Plus (Sym (Range CHR ''a'' CHR ''z'')), Star (cats [Plus (Sym Space),
     Sym (Range CHR ''A'' CHR ''Z''), Plus (Sym (Range CHR ''a'' CHR ''z''))])]), WordB]\<close>

definition version_pattern :: regex where
  \<open>version_pattern =
     \<comment> \<open>\<^verbatim>\<open>\b([a-z]+\s*\d+(?:\.\d+)?)\b\<close>\<close>
     cats [WordB, Group 1 (cats [Plus (Sym (Range CHR ''a'' CHR ''z'')), Star (Sym Space),
     Plus (Sym Digit), Opt (cats [lit ''.'', Plus (Sym Digit)])]), WordB]\<close>

definition common_words :: "string list" where
  "common_words = [''the'', ''and'', ''for'', ''with'', ''this'', ''that'']"

fun cap_keywords :: "match list \<Rightarrow> py_error + string set" where
  "cap_keywords [] = Inr {}"
| "cap_keywords (m # ms) =
     (case group m 1 of
        None \<Rightarrow> Inl AttributeError
      | Some keyword \<Rightarrow>
          (case cap_keywords ms of
             Inl e \<Rightarrow> Inl e
           | Inr ks \<Rightarrow>
               Inr (if lower keyword \<notin> set common_words then insert (lower keyword) ks else ks)))"

fun version_keywords :: "match list \<Rightarrow> py_error + string set" where
  "version_keywords [] = Inr {}"
| "version_keywords (m # ms) =
     (case group m 1 of
        None \<Rightarrow> Inl AttributeError
      | Some g \<Rightarrow>
          (case version_keywords ms of
             Inl e \<Rightarrow> Inl e
           | Inr ks \<Rightarrow> Inr (insert (lower g) ks)))"

definition extract_keywords :: "string \<Rightarrow> py_error + string set" where
  "extract_keywords text =
     (case cap_keywords (re_finditer cap_pattern text MULTILINE) of
        Inl e \<Rightarrow> Inl e
      | Inr caps \<Rightarrow>
          (case version_keywords (re_finditer version_pattern text IGNORECASE) of
             Inl e \<Rightarrow> Inl e
           | Inr versions \<Rightarrow> Inr (caps \<union> versions)))"

section \<open>matcher/scorer.py\<close>

subsection \<open>Configuration and construction\<close>

text \<open>
  The configuration is the dictionary \<^verbatim>\<open>_load_config\<close> returns: the built-in one, or
  whatever the JSON file holds, where each key may be absent (\<open>None\<close>).
\<close>

record config =
  cfg_weights :: "(string \<rightharpoonup> float) option"
  cfg_min_score :: "float option"
  cfg_experience_tolerance :: "int option"

text \<open>A decimal literal of the source is the float nearest to it.\<close>

definition default_weights :: "string \<rightharpoonup> float" where
  "default_weights =
     [''required_skills'' \<mapsto> to_float (50 / 100),
      ''preferred_skills'' \<mapsto> to_float (25 / 100),
      ''experience'' \<mapsto> to_float (15 / 100),
      ''keyword_density'' \<mapsto> to_float (10 / 100)]"

definition default_config :: config where
  "default_config =
     \<lparr>cfg_weights = Some default_weights,
      cfg_min_score = Some (to_float 0),
      cfg_experience_tolerance = Some 2\<rparr>"

record scorer =
  config :: config
  weights :: "string \<rightharpoonup> float"

definition ResumeScorer :: "config \<Rightarrow> scorer" where
  "ResumeScorer cfg =
     \<lparr>config = cfg,
      weights = (case cfg_weights cfg of None \<Rightarrow> default_weights | Some w \<Rightarrow> w)\<rparr>"

definition get_item :: "(string \<rightharpoonup> 'v) \<Rightarrow> string \<Rightarrow> py_error + 'v" where
  "get_item d k = (case d k of None \<Rightarrow> Inl (KeyError k) | Some v \<Rightarrow> Inr v)"

subsection \<open>The component scores on exact numbers\<close>

text \<open>
  The three component scores as functions on exact numbers: every quotient, product,
  sum and difference is the exact one. The next subsection has them again in the
  arithmetic of the machine, which is what \<^verbatim>\<open>score_resume\<close> computes with.
\<close>

definition calculate_skill_match :: "string set \<Rightarrow> string set \<Rightarrow> real" where
  "calculate_skill_match resume_skills jd_skills =
     (if jd_skills = {} then 1
      else let matched_skills = resume_skills \<inter> jd_skills;
               match_ratio = real (card matched_skills) / real (card jd_skills)
           in match_ratio)"

definition tolerance_of :: "scorer \<Rightarrow> int" where
  "tolerance_of sc = (case cfg_experience_tolerance (config sc) of None \<Rightarrow> 2 | Some t \<Rightarrow> t)"




subsection \<open>The component scores in floating point\<close>

text \<open>
  The same three functions as the program computes them: every quotient, product, sum
  and difference is rounded to a float, and a decimal literal is the float nearest to
  it. The quotients of set sizes lie between 0 and 1 and every other intermediate
  result is at most 1 in magnitude, so only the quotient of the two experiences can be
  too large for a float.
\<close>

definition calculate_skill_match_float :: "string set \<Rightarrow> string set \<Rightarrow> real" where
  "calculate_skill_match_float resume_skills jd_skills =
     (if jd_skills = {} then 1
      else let matched_skills = resume_skills \<inter> jd_skills;
               match_ratio = rnd (real (card matched_skills) / real (card jd_skills))
           in match_ratio)"

definition calculate_experience_match_float :: "scorer \<Rightarrow> int \<Rightarrow> int \<Rightarrow> py_error + real" where
  "calculate_experience_match_float sc resume_exp required_exp =
     (if required_exp = 0 then Inr 1
      else let tolerance = tolerance_of sc
           in if resume_exp \<ge> required_exp then Inr 1
              else if resume_exp \<ge> required_exp - tolerance then
                let gap = required_exp - resume_exp
                in (case int_true_div gap (tolerance + 1) of
                      Inl e \<Rightarrow> Inl e
                    | Inr q \<Rightarrow>
                        let score = rnd (1 - rnd (q * rnd (3 / 10)))
                        in Inr (max (rnd (7 / 10)) score))
              else
                (case (if required_exp > 0 then int_true_div resume_exp required_exp
                       else Inr 0) of
                   Inl e \<Rightarrow> Inl e
                 | Inr ratio \<Rightarrow> Inr (max 0 (rnd (ratio * rnd (7 / 10))))))"

definition calculate_keyword_match_float :: "string list \<Rightarrow> string list \<Rightarrow> real" where
  "calculate_keyword_match_float resume_keywords jd_keywords =
     (if jd_keywords = [] then 1
      else let resume_keyword_set = set (map lower resume_keywords);
               jd_keyword_set = set (map lower jd_keywords);
               matched_keywords = resume_keyword_set \<inter> jd_keyword_set
           in if jd_keyword_set = {} then 1
              else let match_ratio =
                         rnd (real (card matched_keywords) / real (card jd_keyword_set));
                       frequency_bonus =
                         (if resume_keywords \<noteq> [] then
                            let keyword_count =
                                  length (filter (\<lambda>kw. lower kw \<in> jd_keyword_set) resume_keywords)
                            in min (rnd (2 / 10))
                                 (rnd (real keyword_count / real (length resume_keywords)))
                          else 0)
                   in min 1 (rnd (match_ratio + frequency_bonus)))"

subsection \<open>\<^verbatim>\<open>score_resume\<close>\<close>

text \<open>
  The parsed job description, the dictionary with the keys \<^verbatim>\<open>text\<close>,
  \<^verbatim>\<open>min_experience\<close>, \<^verbatim>\<open>required_skills\<close>, \<^verbatim>\<open>preferred_skills\<close> and
  \<^verbatim>\<open>keywords\<close>. The type \<open>'c\<close> of its three collections is \<open>string list\<close> where
  \<^verbatim>\<open>score_resume\<close> receives them, and \<open>string set\<close> where \<^verbatim>\<open>parse_text\<close> builds them
  with \<^verbatim>\<open>list(some_set)\<close>. \<^verbatim>\<open>score_resume\<close> reads the dictionary only through
  \<^verbatim>\<open>jd_data.get(key, default)\<close>, so an absent key is the field holding the default
  (\<open>[]\<close> or \<open>0\<close>).
\<close>

record 'c jd_data =
  jd_text :: string
  min_experience :: int
  required_skills :: 'c
  preferred_skills :: 'c
  jd_keywords :: 'c


text \<open>
  The dictionary \<^verbatim>\<open>score_resume\<close> returns; \<open>'n\<close> is the type of its five numbers,
  floats where \<^verbatim>\<open>score_resume\<close> builds them.
\<close>

record 'n score =
  total_score :: 'n
  required_skills_score :: 'n
  preferred_skills_score :: 'n
  experience_score :: 'n
  keyword_score :: 'n
  matched_required_skills :: "string set"
  matched_preferred_skills :: "string set"
  missing_required_skills :: "string set"
  resume_experience :: int
  required_experience :: int

definition score_resume ::
  "scorer \<Rightarrow> string set \<Rightarrow> int \<Rightarrow> string list \<Rightarrow> string list jd_data
     \<Rightarrow> py_error + float score" where
  "score_resume sc resume_skills resume_exp resume_keywords jd =
     (let jd_required = set (map lower (required_skills jd));
          jd_preferred = set (map lower (preferred_skills jd));
          jd_kws = jd_keywords jd;
          jd_min_exp = min_experience jd;
          required_score = calculate_skill_match_float resume_skills jd_required;
          preferred_score = calculate_skill_match_float resume_skills jd_preferred
      in case calculate_experience_match_float sc resume_exp jd_min_exp of
           Inl e \<Rightarrow> Inl e
         | Inr experience_score' \<Rightarrow>
       let keyword_score' = calculate_keyword_match_float resume_keywords jd_kws
       in case get_item (weights sc) ''required_skills'' of Inl e \<Rightarrow> Inl e | Inr w_req \<Rightarrow>
          case get_item (weights sc) ''preferred_skills'' of Inl e \<Rightarrow> Inl e | Inr w_pref \<Rightarrow>
          case get_item (weights sc) ''experience'' of Inl e \<Rightarrow> Inl e | Inr w_exp \<Rightarrow>
          case get_item (weights sc) ''keyword_density'' of Inl e \<Rightarrow> Inl e | Inr w_kw \<Rightarrow>
       let total =
             fadd (fadd (fadd (fmul (Finite required_score) w_req)
                              (fmul (Finite preferred_score) w_pref))
                        (fmul (Finite experience_score') w_exp))
                  (fmul (Finite keyword_score') w_kw)
       in Inr \<lparr>total_score = py_round2 (fmul total (Finite 100)),
               required_skills_score = py_round2 (fmul (Finite required_score) (Finite 100)),
               preferred_skills_score = py_round2 (fmul (Finite preferred_score) (Finite 100)),
               experience_score = py_round2 (fmul (Finite experience_score') (Finite 100)),
               keyword_score = py_round2 (fmul (Finite keyword_score') (Finite 100)),
               matched_required_skills = resume_skills \<inter> jd_required,
               matched_preferred_skills = resume_skills \<inter> jd_preferred,
               missing_required_skills = jd_required - resume_skills,
               resume_experience = resume_exp,
               required_experience = jd_min_exp\<rparr>)"

subsection \<open>\<^verbatim>\<open>rank_resumes\<close>\<close>

text \<open>
  An entry of the list the pipeline ranks: the resume, its score and the echoed
  extraction results. The ranking compares the totals as numbers: a finite float is
  the real number it denotes.
\<close>

record 'r scored_resume =
  resume :: 'r
  score :: "real score"
  skills :: "string list"
  experience :: int

text \<open>
  The built-in \<^verbatim>\<open>sorted(xs, key=f, reverse=True)\<close>: the list is reversed, sorted
  stably in ascending order of the key, and reversed again.
\<close>

definition sorted_reverse :: "('a \<Rightarrow> real) \<Rightarrow> 'a list \<Rightarrow> 'a list" where
  "sorted_reverse f xs = rev (sort_key f (rev xs))"

definition rank_resumes :: "'r scored_resume list \<Rightarrow> 'r scored_resume list" where
  "rank_resumes scored_resumes = sorted_reverse (\<lambda>x. total_score (score x)) scored_resumes"

section \<open>parsers/jd_parser.py: \<^verbatim>\<open>parse_text\<close>\<close>

definition parse_text :: "string \<Rightarrow> py_error + string set jd_data" where
  "parse_text text =
     (let text_lower = lower text
      in case extract_experience text_lower of Inl e \<Rightarrow> Inl e | Inr min_exp \<Rightarrow>
         case split_sections text_lower of
           Inl e \<Rightarrow> Inl e | Inr (required_section, preferred_section) \<Rightarrow>
         case extract_skills required_section of Inl e \<Rightarrow> Inl e | Inr required \<Rightarrow>
         case extract_skills preferred_section of Inl e \<Rightarrow> Inl e | Inr preferred \<Rightarrow>
         case (if required = {} \<and> preferred = {} then extract_skills text_lower
               else Inr required) of Inl e \<Rightarrow> Inl e | Inr required' \<Rightarrow>
         case extract_keywords text_lower of Inl e \<Rightarrow> Inl e | Inr kws \<Rightarrow>
         Inr \<lparr>jd_text = text, min_experience = min_exp, required_skills = required',
              preferred_skills = preferred, jd_keywords = kws\<rparr>)"


section \<open>Verified properties\<close>

subsection \<open>Characters and rounding\<close>

lemma not_upper_lower_char: "\<not> is_upper (lower_char c)"
  by (auto simp: lower_char_def is_upper_def)

lemma lower_no_upper: "c \<in> set (lower s) \<Longrightarrow> \<not> is_upper c"
  by (auto simp: lower_def not_upper_lower_char)


lemma round_half_even_bounds: "\<bar>real_of_int (round_half_even x) - x\<bar> \<le> 1 / 2"
  unfolding round_half_even_def Let_def by (auto; linarith)

lemma round_half_even_le: "x \<le> of_int m \<Longrightarrow> round_half_even x \<le> m"
  unfolding round_half_even_def Let_def by (auto; linarith)

lemma round_half_even_ge: "of_int m \<le> x \<Longrightarrow> m \<le> round_half_even x"
  unfolding round_half_even_def Let_def by (auto; linarith)

lemma hundredth_close: "\<bar>real_of_int (round_half_even (x * 100)) / 100 - x\<bar> \<le> 1 / 200"
proof -
  have "\<bar>real_of_int (round_half_even (x * 100)) - x * 100\<bar> \<le> 1 / 2"
    by (rule round_half_even_bounds)
  then show ?thesis
    by (simp add: field_simps abs_le_iff)
qed

subsection \<open>Floating-point rounding\<close>

text \<open>The exponent of a number between two powers of two, and the rounding there.\<close>

lemma expo_eq:
  assumes "2 powi e \<le> \<bar>x\<bar>" "\<bar>x\<bar> < 2 powi (e + 1)"
  shows "expo x = max e (- 1022)"
proof -
  have pos: "0 < \<bar>x\<bar>" using assms(1) by (smt (verit) zero_less_power_int)
  have p1: "2 powr real_of_int e = 2 powi e"
    by (simp add: powr_real_of_int')
  have "2 powr (real_of_int e + 1) = 2 powr real_of_int (e + 1)" by simp
  also have "\<dots> = 2 powi (e + 1)" by (rule powr_real_of_int') simp_all
  finally have p2: "2 powr (real_of_int e + 1) = 2 powi (e + 1)" .
  have "\<lfloor>log 2 \<bar>x\<bar>\<rfloor> = e"
    using assms pos by (simp add: floor_log_eq_powr_iff p1 p2)
  then show ?thesis by (simp add: expo_def)
qed

lemma rnd_eval:
  assumes "2 powi e \<le> \<bar>x\<bar>" "\<bar>x\<bar> < 2 powi (e + 1)" "- 1022 \<le> e"
  shows "rnd x = of_int (round_half_even (x / 2 powi (e - 52))) * 2 powi (e - 52)"
proof -
  have "x \<noteq> 0" using assms(1) by (smt (verit) abs_zero zero_less_power_int)
  moreover have "expo x = e" using expo_eq [OF assms(1,2)] assms(3) by simp
  ultimately show ?thesis by (simp add: rnd_def)
qed

lemma expo_le:
  assumes "\<bar>x\<bar> \<le> 2 powi k" "- 1022 \<le> k" "x \<noteq> 0"
  shows "expo x \<le> k"
proof -
  from assms(3) have pos: "0 < \<bar>x\<bar>" by simp
  have "log 2 \<bar>x\<bar> \<le> log 2 (2 powi k)"
    using assms(1) pos by simp
  also have "(2::real) powi k = 2 powr real_of_int k"
    by (rule powr_real_of_int' [symmetric]) simp_all
  also have "log 2 (2 powr real_of_int k) = real_of_int k"
    by simp
  finally have "\<lfloor>log 2 \<bar>x\<bar>\<rfloor> \<le> k" by linarith
  then show ?thesis using assms(2) by (simp add: expo_def)
qed

text \<open>Rounding does not cross a power of two, nor zero.\<close>

lemma rnd_abs_le:
  assumes "\<bar>x\<bar> \<le> 2 powi k" "- 1022 \<le> k"
  shows "\<bar>rnd x\<bar> \<le> 2 powi k"
proof (cases "x = 0")
  case True
  then show ?thesis by (simp add: rnd_def)
next
  case False
  define e where "e = expo x"
  define u :: real where "u = 2 powi (e - 52)"
  define M :: int where "M = 2 ^ nat (k - e + 52)"
  have ek: "e \<le> k" unfolding e_def by (rule expo_le [OF assms False])
  have u: "0 < u" by (simp add: u_def)
  have "2 powi k = (2::real) powi (k - e + 52) * 2 powi (e - 52)"
    by (simp flip: power_int_add)
  also have "(2::real) powi (k - e + 52) = of_int M"
    using ek by (simp add: M_def power_int_def)
  finally have Mu: "2 powi k = of_int M * u" by (simp add: u_def)
  have "\<bar>x\<bar> / u \<le> of_int M"
    using assms(1) u by (simp add: Mu pos_divide_le_eq)
  then have up: "x / u \<le> of_int M" and lo: "of_int (- M) \<le> x / u"
    using u by (simp_all add: abs_le_iff field_simps; linarith)+
  have "round_half_even (x / u) \<le> M" by (rule round_half_even_le [OF up])
  moreover have "- M \<le> round_half_even (x / u)" by (rule round_half_even_ge [OF lo])
  ultimately have "\<bar>real_of_int (round_half_even (x / u))\<bar> \<le> of_int M"
    by linarith
  then have "\<bar>real_of_int (round_half_even (x / u)) * u\<bar> \<le> of_int M * u"
    using u by (simp add: abs_mult)
  moreover have "rnd x = real_of_int (round_half_even (x / u)) * u"
    using False by (simp add: rnd_def u_def e_def)
  ultimately show ?thesis by (simp add: Mu)
qed

lemma rnd_nonneg: "0 \<le> x \<Longrightarrow> 0 \<le> rnd x"
  using round_half_even_ge [of 0 "x / 2 powi (expo x - 52)"]
  by (simp add: rnd_def)

lemma rnd_0: "rnd 0 = 0"
  by (simp add: rnd_def)

lemma rnd_unit: "0 \<le> x \<Longrightarrow> x \<le> 1 \<Longrightarrow> 0 \<le> rnd x \<and> rnd x \<le> 1"
  using rnd_abs_le [of x 0] rnd_nonneg [of x] by simp

lemma to_float_Finite: "\<bar>rnd x\<bar> < 2 ^ 1024 \<Longrightarrow> to_float x = Finite (rnd x)"
  by (simp add: to_float_def Let_def abs_less_iff not_le)

lemma to_float_small: "\<bar>x\<bar> \<le> 2 ^ 1023 \<Longrightarrow> to_float x = Finite (rnd x)"
proof -
  assume a: "\<bar>x\<bar> \<le> 2 ^ 1023"
  have "\<bar>rnd x\<bar> \<le> 2 powi 1023"
    by (rule rnd_abs_le) (use a in simp_all)
  also have "\<dots> < (2::real) ^ 1024" by simp
  finally show ?thesis by (rule to_float_Finite)
qed

lemma int_true_div_Inr:
  assumes "b \<noteq> 0" "\<bar>real_of_int a / real_of_int b\<bar> \<le> 2 ^ 1023"
  shows "int_true_div a b = Inr (rnd (real_of_int a / real_of_int b))"
  using assms by (simp add: int_true_div_def to_float_small)

text \<open>The floats of the literals of the source, and of the numbers the examples below
  come to.\<close>

lemma rnd_1: "rnd 1 = 1"
  using rnd_eval [of 0 1] by (simp add: round_half_even_def)

lemma rnd_100: "rnd 100 = 100"
  using rnd_eval [of 6 100] by (simp add: round_half_even_def)

lemma rnd_0_7: "rnd (7 / 10) = 3152519739159347 / 4503599627370496"
  using rnd_eval [of "-1" "7 / 10"] by (simp add: round_half_even_def)

lemma rnd_0_3: "rnd (3 / 10) = 5404319552844595 / 18014398509481984"
  using rnd_eval [of "-2" "3 / 10"] by (simp add: round_half_even_def)

lemma rnd_0_2: "rnd (1 / 5) = 3602879701896397 / 18014398509481984"
  using rnd_eval [of "-3" "1 / 5"] by (simp add: round_half_even_def)

lemma rnd_0_50: "rnd (1 / 2) = 1 / 2"
  using rnd_eval [of "-1" "1 / 2"] by (simp add: round_half_even_def)

lemma rnd_0_25: "rnd (1 / 4) = 1 / 4"
  using rnd_eval [of "-2" "1 / 4"] by (simp add: round_half_even_def)

lemma rnd_0_15: "rnd (3 / 20) = 5404319552844595 / 36028797018963968"
  using rnd_eval [of "-3" "3 / 20"] by (simp add: round_half_even_def)

lemma rnd_0_10: "rnd (1 / 10) = 3602879701896397 / 36028797018963968"
  using rnd_eval [of "-4" "1 / 10"] by (simp add: round_half_even_def)

lemma to_float_1: "to_float 1 = Finite 1"
  by (simp add: to_float_small rnd_1)

lemma to_float_100: "to_float 100 = Finite 100"
  by (simp add: to_float_small rnd_100)

lemma to_float_0: "to_float 0 = Finite 0"
  by (simp add: to_float_small rnd_0)

lemma py_round2_100: "py_round2 (Finite 100) = Finite 100"
  by (simp add: round_half_even_def to_float_100)

lemma py_round2_0: "py_round2 (Finite 0) = Finite 0"
  by (simp add: round_half_even_def to_float_0)

subsection \<open>The experience score\<close>


lemma tolerance_default: "tolerance_of (ResumeScorer default_config) = 2"
  by (simp add: tolerance_of_def ResumeScorer_def default_config_def)



subsection \<open>The keyword score\<close>




lemma lower_java: "lower ''java'' = ''java''" "lower ''Java'' = ''java''"
  by code_simp+



subsection \<open>The skill scores and the total\<close>

text \<open>
  \<^verbatim>\<open>_calculate_experience_match\<close> returns in floating point too, unless the resume's
  experience is a negative number too large for a float.
\<close>

lemma experience_float_returns:
  assumes "- (2 ^ 1023) \<le> resume_exp"
  shows "\<exists>x. calculate_experience_match_float sc resume_exp need = Inr x"
proof -
  define t where "t = tolerance_of sc"
  define K :: real where "K = 2 ^ 1023"
  have K1: "1 \<le> K" by (simp add: K_def)
  show ?thesis
  proof (cases "need = 0 \<or> need \<le> resume_exp")
    case True
    then show ?thesis by (auto simp: calculate_experience_match_float_def)
  next
    case False
    then have n: "need \<noteq> 0" "resume_exp < need" by auto
    show ?thesis
    proof (cases "need - t \<le> resume_exp")
      case True
      then have g: "1 \<le> need - resume_exp" "need - resume_exp \<le> t" using n by auto
      then have t1: "t + 1 \<noteq> 0" by auto
      have "\<bar>real_of_int (need - resume_exp) / real_of_int (t + 1)\<bar> \<le> 1"
        using g by simp
      also have "1 \<le> K" by (rule K1)
      finally have "int_true_div (need - resume_exp) (t + 1)
          = Inr (rnd (real_of_int (need - resume_exp) / real_of_int (t + 1)))"
        unfolding K_def by (rule int_true_div_Inr [OF t1])
      then show ?thesis
        using n True by (simp add: calculate_experience_match_float_def Let_def t_def)
    next
      case far: False
      show ?thesis
      proof (cases "0 < need")
        case True
        then have pos: "1 \<le> real_of_int need" by simp
        from assms have "real_of_int (- (2 ^ 1023)) \<le> real_of_int resume_exp"
          by (simp only: of_int_le_iff)
        then have lo: "- K \<le> real_of_int resume_exp" by (simp add: K_def)
        have up: "real_of_int resume_exp < real_of_int need" using n by simp
        have "real_of_int need \<le> K * real_of_int need"
          using mult_right_mono [OF K1, of "real_of_int need"] pos by simp
        moreover have "K \<le> K * real_of_int need"
          using mult_left_mono [OF pos, of K] K1 by simp
        ultimately have "\<bar>real_of_int resume_exp\<bar> \<le> K * real_of_int need"
          using lo up by linarith
        then have "\<bar>real_of_int resume_exp / real_of_int need\<bar> \<le> K"
          using pos by (simp add: pos_divide_le_eq)
        then have "int_true_div resume_exp need
            = Inr (rnd (real_of_int resume_exp / real_of_int need))"
          unfolding K_def by (rule int_true_div_Inr [OF n(1)])
        then show ?thesis
          using n far True by (simp add: calculate_experience_match_float_def Let_def t_def)
      next
        case False
        then show ?thesis
          using n far by (simp add: calculate_experience_match_float_def Let_def t_def)
      qed
    qed
  qed
qed

lemma score_resume_Inr:
  assumes w: "weights sc ''required_skills'' = Some w_req"
             "weights sc ''preferred_skills'' = Some w_pref"
             "weights sc ''experience'' = Some w_exp"
             "weights sc ''keyword_density'' = Some w_kw"
      and e: "calculate_experience_match_float sc resume_exp (min_experience jd) = Inr ex"
  shows "score_resume sc resume_skills resume_exp resume_keywords jd =
     Inr \<lparr>total_score =
            py_round2 (fmul
              (fadd (fadd (fadd
                 (fmul (Finite (calculate_skill_match_float resume_skills
                                  (set (map lower (required_skills jd))))) w_req)
                 (fmul (Finite (calculate_skill_match_float resume_skills
                                  (set (map lower (preferred_skills jd))))) w_pref))
                 (fmul (Finite ex) w_exp))
                 (fmul (Finite (calculate_keyword_match_float resume_keywords (jd_keywords jd)))
                       w_kw))
              (Finite 100)),
          required_skills_score =
            py_round2 (fmul (Finite (calculate_skill_match_float resume_skills
                                       (set (map lower (required_skills jd))))) (Finite 100)),
          preferred_skills_score =
            py_round2 (fmul (Finite (calculate_skill_match_float resume_skills
                                       (set (map lower (preferred_skills jd))))) (Finite 100)),
          experience_score = py_round2 (fmul (Finite ex) (Finite 100)),
          keyword_score =
            py_round2 (fmul (Finite (calculate_keyword_match_float resume_keywords (jd_keywords jd)))
                            (Finite 100)),
          matched_required_skills = resume_skills \<inter> set (map lower (required_skills jd)),
          matched_preferred_skills = resume_skills \<inter> set (map lower (preferred_skills jd)),
          missing_required_skills = set (map lower (required_skills jd)) - resume_skills,
          resume_experience = resume_exp,
          required_experience = min_experience jd\<rparr>"
  using w e by (simp add: score_resume_def Let_def get_item_def)

lemma default_weights_simps:
  "weights (ResumeScorer default_config) ''required_skills'' = Some (to_float (50 / 100))"
  "weights (ResumeScorer default_config) ''preferred_skills'' = Some (to_float (25 / 100))"
  "weights (ResumeScorer default_config) ''experience'' = Some (to_float (15 / 100))"
  "weights (ResumeScorer default_config) ''keyword_density'' = Some (to_float (10 / 100))"
  by (simp_all add: ResumeScorer_def default_config_def default_weights_def)

lemma default_weight_values:
  "to_float (50 / 100) = Finite (1 / 2)"
  "to_float (25 / 100) = Finite (1 / 4)"
  "to_float (15 / 100) = Finite (5404319552844595 / 36028797018963968)"
  "to_float (10 / 100) = Finite (3602879701896397 / 36028797018963968)"
  by (simp_all add: to_float_small rnd_0_50 rnd_0_25 rnd_0_15 rnd_0_10)



lemma skill_match_float_rnd:
  "calculate_skill_match_float have need = rnd (calculate_skill_match have need)"
  by (simp add: calculate_skill_match_float_def calculate_skill_match_def rnd_1)

lemma reported_100: "py_round2 (fmul (Finite 1) (Finite 100)) = Finite 100"
  by (simp add: to_float_100 round_half_even_def)


lemma lower_samples:
  "lower ''sql'' = ''sql''" "lower ''docker'' = ''docker''" "lower ''Docker'' = ''docker''"
  "lower ''aws'' = ''aws''"
  by code_simp+



lemma rnd_3333: "rnd (3333 / 100) = 2345390243441541 / 70368744177664"
  using rnd_eval [of 5 "3333 / 100"] by (simp add: round_half_even_def)


text \<open>
  Claim C4. With the four weights configured, \<^verbatim>\<open>score_resume\<close> returns (unless the
  resume's experience is a negative number too large for a float), and its total is
  the sum of the four component scores, each times its weight, times 100 and rounded
  to two decimals; each component is reported times 100 and rounded to two decimals.
  Products and sums are those of floating-point arithmetic, taken from left to right.
  The default weights are the floats of 0.50, 0.25, 0.15 and 0.10. Rounding to two
  decimals yields the float nearest to a whole number of hundredths at most half a
  hundredth away.
\<close>

theorem total_score_weighted_sum:
  assumes "weights sc ''required_skills'' = Some w_req"
          "weights sc ''preferred_skills'' = Some w_pref"
          "weights sc ''experience'' = Some w_exp"
          "weights sc ''keyword_density'' = Some w_kw"
          "- (2 ^ 1023) \<le> resume_exp"
  shows "\<exists>r ex. calculate_experience_match_float sc resume_exp (min_experience jd) = Inr ex
     \<and> score_resume sc resume_skills resume_exp resume_keywords jd = Inr r
     \<and> total_score r =
         py_round2 (fmul
           (fadd (fadd (fadd
              (fmul (Finite (calculate_skill_match_float resume_skills
                               (set (map lower (required_skills jd))))) w_req)
              (fmul (Finite (calculate_skill_match_float resume_skills
                               (set (map lower (preferred_skills jd))))) w_pref))
              (fmul (Finite ex) w_exp))
              (fmul (Finite (calculate_keyword_match_float resume_keywords (jd_keywords jd)))
                    w_kw))
           (Finite 100))
     \<and> required_skills_score r =
         py_round2 (fmul (Finite (calculate_skill_match_float resume_skills
                                    (set (map lower (required_skills jd))))) (Finite 100))
     \<and> preferred_skills_score r =
         py_round2 (fmul (Finite (calculate_skill_match_float resume_skills
                                    (set (map lower (preferred_skills jd))))) (Finite 100))
     \<and> experience_score r = py_round2 (fmul (Finite ex) (Finite 100))
     \<and> keyword_score r =
         py_round2 (fmul (Finite (calculate_keyword_match_float resume_keywords (jd_keywords jd)))
                         (Finite 100))
     \<and> weights (ResumeScorer default_config) ''required_skills'' = Some (to_float (50 / 100))
     \<and> weights (ResumeScorer default_config) ''preferred_skills'' = Some (to_float (25 / 100))
     \<and> weights (ResumeScorer default_config) ''experience'' = Some (to_float (15 / 100))
     \<and> weights (ResumeScorer default_config) ''keyword_density'' = Some (to_float (10 / 100))
     \<and> py_round2 (Finite x) = to_float (real_of_int (round_half_even (x * 100)) / 100)
     \<and> \<bar>real_of_int (round_half_even (x * 100)) / 100 - x\<bar> \<le> 1 / 200"
proof -
  obtain ex where e: "calculate_experience_match_float sc resume_exp (min_experience jd) = Inr ex"
    using experience_float_returns [OF assms(5)] by blast
  show ?thesis
    using hundredth_close [of x]
    by (simp add: score_resume_Inr [OF assms(1-4) e] e default_weights_simps)
qed

lemma rnd_ex: "rnd (3152519739159347 / 18014398509481984) = 3152519739159347 / 18014398509481984"
  using rnd_eval [of "-3" "3152519739159347 / 18014398509481984"]
  by (simp add: round_half_even_def)

lemma rnd_kw: "rnd (8106479329266893 / 18014398509481984) = 8106479329266893 / 18014398509481984"
  using rnd_eval [of "-2" "8106479329266893 / 18014398509481984"]
  by (simp add: round_half_even_def)

lemma rnd_p3:
  "rnd (17037224067067401444747832679465 / 649037107316853453566312041152512)
     = 7566047373982433 / 288230376151711744"
  using rnd_eval [of "-6" "17037224067067401444747832679465 / 649037107316853453566312041152512"]
  by (simp add: round_half_even_def)

lemma rnd_p4:
  "rnd (29206669829258407752355848084521 / 649037107316853453566312041152512)
     = 6485183463413515 / 144115188075855872"
  using rnd_eval [of "-5" "29206669829258407752355848084521 / 649037107316853453566312041152512"]
  by (simp add: round_half_even_def)

lemma rnd_s2: "rnd (7566047373982433 / 288230376151711744) = 7566047373982433 / 288230376151711744"
  using rnd_eval [of "-6" "7566047373982433 / 288230376151711744"]
  by (simp add: round_half_even_def)

lemma rnd_s3: "rnd (20536414300809463 / 288230376151711744) = 2567051787601183 / 36028797018963968"
  using rnd_eval [of "-4" "20536414300809463 / 288230376151711744"]
  by (simp add: round_half_even_def)

lemma rnd_t: "rnd (64176294690029575 / 9007199254740992) = 8022036836253697 / 1125899906842624"
  using rnd_eval [of 2 "64176294690029575 / 9007199254740992"]
  by (simp add: round_half_even_def)

lemma rnd_713: "rnd (713 / 100) = 8027666335787909 / 1125899906842624"
  using rnd_eval [of 2 "713 / 100"] by (simp add: round_half_even_def)

lemma rnd_ex100: "rnd (78812993478983675 / 4503599627370496) = 35 / 2"
  using rnd_eval [of 4 "78812993478983675 / 4503599627370496"]
  by (simp add: round_half_even_def)

lemma rnd_17_5: "rnd (35 / 2) = 35 / 2"
  using rnd_eval [of 4 "35 / 2"] by (simp add: round_half_even_def)

lemma rnd_kw100: "rnd (202661983231672325 / 4503599627370496) = 45"
  using rnd_eval [of 5 "202661983231672325 / 4503599627370496"]
  by (simp add: round_half_even_def)

lemma rnd_45: "rnd 45 = 45"
  using rnd_eval [of 5 45] by (simp add: round_half_even_def)

lemma lower_main:
  "lower ''spring'' = ''spring''" "lower ''mysql'' = ''mysql''"
  "lower ''kubernetes'' = ''kubernetes''" "lower ''microservices'' = ''microservices''"
  by code_simp+

text \<open>
  A resume with one year where four are wanted, neither the required nor the preferred
  skill, and one of four keywords. On exact numbers the weighted sum times 100 is
  \<open>57/8 = 7.125\<close>, a tie that goes to \<open>7.12\<close>; the floating-point sum is just above the
  tie, and the total is the float nearest to \<open>7.13\<close>. The experience score is the float
  \<open>17.5\<close> and the keyword score the float \<open>45\<close>.
\<close>

theorem total_score_weighted_sum_witness:
  "map_sum id total_score
     (score_resume (ResumeScorer default_config) {} 1 [''java'']
        \<lparr>jd_text = [], min_experience = 4, required_skills = [''java''],
         preferred_skills = [''sql''],
         jd_keywords = [''java'', ''sql'', ''aws'', ''docker'']\<rparr>) = Inr (Finite (rnd (713 / 100)))
   \<and> map_sum id experience_score
     (score_resume (ResumeScorer default_config) {} 1 [''java'']
        \<lparr>jd_text = [], min_experience = 4, required_skills = [''java''],
         preferred_skills = [''sql''],
         jd_keywords = [''java'', ''sql'', ''aws'', ''docker'']\<rparr>) = Inr (Finite (35 / 2))
   \<and> map_sum id keyword_score
     (score_resume (ResumeScorer default_config) {} 1 [''java'']
        \<lparr>jd_text = [], min_experience = 4, required_skills = [''java''],
         preferred_skills = [''sql''],
         jd_keywords = [''java'', ''sql'', ''aws'', ''docker'']\<rparr>) = Inr (Finite 45)
   \<and> round_half_even ((0 * (50 / 100) + 0 * (25 / 100) + 1 / 4 * (7 / 10) * (15 / 100)
                          + (1 / 4 + 2 / 10) * (10 / 100)) * 100 * 100) = 712"
proof -
  let ?sc = "ResumeScorer default_config"
  let ?rs = "{} :: string set"
  let ?rk = "[''java'']"
  let ?jd = "\<lparr>jd_text = [], min_experience = 4, required_skills = [''java''],
         preferred_skills = [''sql''],
         jd_keywords = [''java'', ''sql'', ''aws'', ''docker'']\<rparr>"
  note ls = lower_java lower_samples
  have rq: "calculate_skill_match_float ?rs (set (map lower (required_skills ?jd))) = 0"
    by (simp add: calculate_skill_match_float_def rnd_0)
  have pf: "calculate_skill_match_float ?rs (set (map lower (preferred_skills ?jd))) = 0"
    by (simp add: calculate_skill_match_float_def rnd_0)
  have d: "int_true_div 1 4 = Inr (1 / 4)"
    by (simp add: int_true_div_def to_float_small rnd_0_25)
  have ex: "calculate_experience_match_float ?sc 1 (min_experience ?jd)
              = Inr (3152519739159347 / 18014398509481984)"
    by (simp add: calculate_experience_match_float_def tolerance_default d rnd_0_7 rnd_ex)
  have c1: "card ({''java''} \<inter> {''java'', ''sql'', ''aws'', ''docker''}) = 1" by simp
  have c4: "card {''java'', ''sql'', ''aws'', ''docker''} = 4" by simp
  have kw: "calculate_keyword_match_float ?rk (jd_keywords ?jd)
              = 8106479329266893 / 18014398509481984"
    by (simp add: calculate_keyword_match_float_def Let_def ls c1 c4 rnd_0_25 rnd_1 rnd_0_2 rnd_kw)
  have p3: "fmul (Finite (3152519739159347 / 18014398509481984))
                 (Finite (5404319552844595 / 36028797018963968))
              = Finite (7566047373982433 / 288230376151711744)"
    by (simp add: to_float_small rnd_p3)
  have p4: "fmul (Finite (8106479329266893 / 18014398509481984))
                 (Finite (3602879701896397 / 36028797018963968))
              = Finite (6485183463413515 / 144115188075855872)"
    by (simp add: to_float_small rnd_p4)
  have p0: "fmul (Finite 0) (Finite (1 / 2)) = Finite 0" "fmul (Finite 0) (Finite (1 / 4)) = Finite 0"
    by (simp_all add: to_float_0)
  have s1: "fadd (Finite 0) (Finite 0) = Finite 0"
    by (simp add: to_float_0)
  have s2: "fadd (Finite 0) (Finite (7566047373982433 / 288230376151711744))
              = Finite (7566047373982433 / 288230376151711744)"
    by (simp add: to_float_small rnd_s2)
  have s3: "fadd (Finite (7566047373982433 / 288230376151711744))
                 (Finite (6485183463413515 / 144115188075855872))
              = Finite (2567051787601183 / 36028797018963968)"
    by (simp add: to_float_small rnd_s3)
  have t: "fmul (Finite (2567051787601183 / 36028797018963968)) (Finite 100)
              = Finite (8022036836253697 / 1125899906842624)"
    by (simp add: to_float_small rnd_t)
  have r: "py_round2 (Finite (8022036836253697 / 1125899906842624)) = Finite (rnd (713 / 100))"
    by (simp add: round_half_even_def to_float_small)
  have e100: "py_round2 (fmul (Finite (3152519739159347 / 18014398509481984)) (Finite 100))
                = Finite (35 / 2)"
    by (simp add: round_half_even_def to_float_small rnd_ex100 rnd_17_5)
  have k100: "py_round2 (fmul (Finite (8106479329266893 / 18014398509481984)) (Finite 100))
                = Finite 45"
    by (simp add: round_half_even_def to_float_small rnd_kw100 rnd_45)
  have exact: "round_half_even ((0 * (50 / 100) + 0 * (25 / 100) + 1 / 4 * (7 / 10) * (15 / 100)
                          + (1 / 4 + 2 / 10) * (10 / 100)) * 100 * 100) = 712"
    by (simp add: round_half_even_def)
  have small: "- (2 ^ 1023) \<le> (1::int)" by simp
  from total_score_weighted_sum [OF default_weights_simps small, where jd = ?jd
      and resume_skills = ?rs and resume_keywords = ?rk]
  obtain r e where
    "calculate_experience_match_float ?sc 1 (min_experience ?jd) = Inr e"
    and s: "score_resume ?sc ?rs 1 ?rk ?jd = Inr r"
    and tt: "total_score r =
         py_round2 (fmul
           (fadd (fadd (fadd
              (fmul (Finite (calculate_skill_match_float ?rs
                               (set (map lower (required_skills ?jd))))) (to_float (50 / 100)))
              (fmul (Finite (calculate_skill_match_float ?rs
                               (set (map lower (preferred_skills ?jd))))) (to_float (25 / 100))))
              (fmul (Finite e) (to_float (15 / 100))))
              (fmul (Finite (calculate_keyword_match_float ?rk (jd_keywords ?jd)))
                    (to_float (10 / 100))))
           (Finite 100))"
    and ee: "experience_score r = py_round2 (fmul (Finite e) (Finite 100))"
    and kk: "keyword_score r =
         py_round2 (fmul (Finite (calculate_keyword_match_float ?rk (jd_keywords ?jd)))
                         (Finite 100))"
    by blast
  then have e1: "e = 3152519739159347 / 18014398509481984" using ex by simp
  have "total_score r = Finite (rnd (713 / 100))"
    using tt unfolding rq pf kw e1 default_weight_values p0 s1 p3 s2 p4 s3 t r .
  moreover have "experience_score r = Finite (35 / 2)" using ee unfolding e1 e100 .
  moreover have "keyword_score r = Finite 45" using kk unfolding kw k100 .
  ultimately show ?thesis using s exact by simp
qed

subsection \<open>Ranking\<close>

text \<open>
  Claim C8. \<^verbatim>\<open>rank_resumes\<close> returns the entries in descending order of total score;
  the result is a permutation of the input; and the entries of any one total score
  appear in the order they had in the input.
\<close>

theorem rank_resumes_sorted_stable:
  "sorted_wrt (\<lambda>a b. total_score (score a) \<ge> total_score (score b)) (rank_resumes xs)
   \<and> mset (rank_resumes xs) = mset xs
   \<and> filter (\<lambda>x. total_score (score x) = k) (rank_resumes xs)
       = filter (\<lambda>x. total_score (score x) = k) xs"
proof -
  let ?f = "\<lambda>x. total_score (score x)"
  have "sorted (map ?f (sort_key ?f (rev xs)))" by simp
  then have "sorted_wrt (\<lambda>a b. ?f a \<le> ?f b) (sort_key ?f (rev xs))"
    by (simp add: sorted_map)
  then have a: "sorted_wrt (\<lambda>a b. ?f a \<ge> ?f b) (rank_resumes xs)"
    by (simp add: rank_resumes_def sorted_reverse_def sorted_wrt_rev)
  have b: "mset (rank_resumes xs) = mset xs"
    by (simp add: rank_resumes_def sorted_reverse_def)
  have "filter (\<lambda>x. ?f x = k) (sort_key ?f (rev xs)) = filter (\<lambda>x. ?f x = k) (rev xs)"
    by (rule sort_key_stable)
  then have c: "filter (\<lambda>x. ?f x = k) (rank_resumes xs) = filter (\<lambda>x. ?f x = k) xs"
    by (simp add: rank_resumes_def sorted_reverse_def rev_filter [symmetric])
  from a b c show ?thesis by blast
qed

subsection \<open>Upper-case resume skills\<close>

lemma upper_not_lowered:
  assumes "list_ex is_upper s"
  shows "s \<notin> set (map lower ks)"
proof
  assume "s \<in> set (map lower ks)"
  then obtain k where "s = lower k" by auto
  with assms lower_no_upper show False
    by (auto simp: list_ex_iff)
qed

lemma skill_match_remove:
  assumes "s \<notin> need"
  shows "calculate_skill_match (rs - {s}) need = calculate_skill_match rs need"
proof -
  have "(rs - {s}) \<inter> need = rs \<inter> need" using assms by auto
  then show ?thesis by (simp add: calculate_skill_match_def)
qed

text \<open>
  Claim C10, as amended. A resume skill \<open>s\<close> with an upper-case letter is never matched:
  it is in neither list of matched skills, both skill scores (on exact numbers and in
  floating point) are what they are without it, and the missing required skills are
  what they are without it. In particular its lower-case spelling, when the job
  description requires it, is listed as missing, unless the resume skill set holds that
  lower-case spelling as well.
\<close>

theorem uppercase_resume_skill_unmatched:
  assumes "list_ex is_upper s"
      and "weights sc ''required_skills'' = Some w_req"
          "weights sc ''preferred_skills'' = Some w_pref"
          "weights sc ''experience'' = Some w_exp"
          "weights sc ''keyword_density'' = Some w_kw"
          "- (2 ^ 1023) \<le> resume_exp"
  shows "\<exists>r. score_resume sc resume_skills resume_exp resume_keywords jd = Inr r
     \<and> s \<notin> matched_required_skills r
     \<and> s \<notin> matched_preferred_skills r
     \<and> calculate_skill_match resume_skills (set (map lower (required_skills jd)))
         = calculate_skill_match (resume_skills - {s}) (set (map lower (required_skills jd)))
     \<and> calculate_skill_match resume_skills (set (map lower (preferred_skills jd)))
         = calculate_skill_match (resume_skills - {s}) (set (map lower (preferred_skills jd)))
     \<and> calculate_skill_match_float resume_skills (set (map lower (required_skills jd)))
         = calculate_skill_match_float (resume_skills - {s}) (set (map lower (required_skills jd)))
     \<and> calculate_skill_match_float resume_skills (set (map lower (preferred_skills jd)))
         = calculate_skill_match_float (resume_skills - {s}) (set (map lower (preferred_skills jd)))
     \<and> missing_required_skills r
         = set (map lower (required_skills jd)) - (resume_skills - {s})
     \<and> (lower s \<in> set (map lower (required_skills jd)) \<and> lower s \<notin> resume_skills
          \<longrightarrow> lower s \<in> missing_required_skills r)"
proof -
  obtain ex where e: "calculate_experience_match_float sc resume_exp (min_experience jd) = Inr ex"
    using experience_float_returns [OF assms(6)] by blast
  have n1: "s \<notin> set (map lower (required_skills jd))"
    and n2: "s \<notin> set (map lower (preferred_skills jd))"
    using assms(1) by (rule upper_not_lowered)+
  have m: "set (map lower (required_skills jd)) - resume_skills
            = set (map lower (required_skills jd)) - (resume_skills - {s})"
    using n1 by auto
  show ?thesis
    using n1 n2 m skill_match_remove [OF n1, of resume_skills] skill_match_remove [OF n2, of resume_skills]
    by (simp add: score_resume_Inr [OF assms(2-5) e] skill_match_float_rnd)
qed

lemma upper_Java: "list_ex is_upper ''Java''"
  by code_simp

lemma experience_float_no_requirement: "calculate_experience_match_float sc have 0 = Inr 1"
  by (simp add: calculate_experience_match_float_def)

theorem uppercase_resume_skill_unmatched_witness:
  "list_ex is_upper ''Java''
   \<and> map_sum id matched_required_skills
        (score_resume (ResumeScorer default_config) {''Java'', ''sql''} 3 []
           \<lparr>jd_text = [], min_experience = 0, required_skills = [''Java'', ''sql''],
            preferred_skills = [], jd_keywords = []\<rparr>) = Inr {''sql''}
   \<and> map_sum id missing_required_skills
        (score_resume (ResumeScorer default_config) {''Java'', ''sql''} 3 []
           \<lparr>jd_text = [], min_experience = 0, required_skills = [''Java'', ''sql''],
            preferred_skills = [], jd_keywords = []\<rparr>) = Inr {''java''}"
proof -
  let ?jd = "\<lparr>jd_text = [], min_experience = 0, required_skills = [''Java'', ''sql''],
            preferred_skills = [], jd_keywords = []\<rparr>"
  let ?rs = "{''Java'', ''sql''}"
  have l: "set (map lower (required_skills ?jd)) = {''java'', ''sql''}"
    by (simp add: lower_java lower_samples)
  have small: "- (2 ^ 1023) \<le> (3::int)" by simp
  from uppercase_resume_skill_unmatched [OF upper_Java default_weights_simps small,
      of ?rs "[]" ?jd]
  obtain r where s: "score_resume (ResumeScorer default_config) ?rs 3 [] ?jd = Inr r"
    and m: "missing_required_skills r = set (map lower (required_skills ?jd)) - (?rs - {''Java''})"
    by blast
  have m': "missing_required_skills r = {''java''}"
    unfolding m l by auto
  have e: "calculate_experience_match_float (ResumeScorer default_config) 3 (min_experience ?jd)
             = Inr 1"
    by (simp add: experience_float_no_requirement)
  have q: "matched_required_skills r = {''sql''}"
    using s unfolding score_resume_Inr [OF default_weights_simps e] l by auto
  from s m' q upper_Java show ?thesis by simp
qed

text \<open>
  Claim C10 as it is worded fails when the resume holds both spellings: the lower-case
  one matches, and nothing is missing.
\<close>

theorem uppercase_resume_skill_counterexample:
  "list_ex is_upper ''Java''
   \<and> ''Java'' \<in> {''Java'', ''java''}
   \<and> lower ''Java'' \<in> set (map lower [''Java''])
   \<and> map_sum id missing_required_skills
        (score_resume (ResumeScorer default_config) {''Java'', ''java''} 3 []
           \<lparr>jd_text = [], min_experience = 0, required_skills = [''Java''],
            preferred_skills = [], jd_keywords = []\<rparr>) = Inr {}"
proof -
  let ?jd = "\<lparr>jd_text = [], min_experience = 0, required_skills = [''Java''],
            preferred_skills = [], jd_keywords = []\<rparr>"
  have e: "calculate_experience_match_float (ResumeScorer default_config) 3 (min_experience ?jd)
             = Inr 1"
    by (simp add: experience_float_no_requirement)
  have "map_sum id missing_required_skills
          (score_resume (ResumeScorer default_config) {''Java'', ''java''} 3 [] ?jd) = Inr {}"
    by (simp add: score_resume_Inr [OF default_weights_simps e] lower_java)
  moreover have "lower ''Java'' \<in> set (map lower [''Java''])" by simp
  ultimately show ?thesis using upper_Java by blast
qed

end
